theory Spec2Isabelle
  imports Main "HOL-Library.Word"
begin

section \<open>The call/create layer of the EVM (geth/vm/evm.go)\<close>

text \<open>
  A shallow embedding of \<^verbatim>\<open>Call\<close>, \<^verbatim>\<open>CallCode\<close>, \<^verbatim>\<open>DelegateCall\<close>,
  \<^verbatim>\<open>StaticCall\<close>, \<^verbatim>\<open>create\<close>, \<^verbatim>\<open>Create\<close> and \<^verbatim>\<open>Create2\<close> of evm.go.
  The state database is threaded explicitly: every operation takes the database and returns
  the database it leaves behind together with the values the Go function returns.
  The tracer hooks (\<^verbatim>\<open>evm.Config.Debug\<close> blocks and their deferred calls) only notify an
  observer and never touch the returned values or the database, so they have no counterpart
  here.
\<close>

subsection \<open>Basic types\<close>

type_synonym address = "160 word"   \<comment> \<open>\<^verbatim>\<open>common.Address\<close>, 20 bytes\<close>
type_synonym hash = "256 word"      \<comment> \<open>\<^verbatim>\<open>common.Hash\<close>, 32 bytes\<close>
type_synonym bytes = "8 word list"  \<comment> \<open>\<^verbatim>\<open>[]byte\<close>; \<^verbatim>\<open>nil\<close> is the empty list\<close>
type_synonym uint64 = "64 word"

text \<open>
  The error values that evm.go names, and one constructor for every other error that the
  interpreter or a precompiled contract may report (out of gas, invalid opcode, write
  protection, ...). Go compares errors by identity; here that is equality of constructors.
\<close>

datatype error =
    ErrDepth
  | ErrInsufficientBalance
  | ErrNonceUintOverflow
  | ErrContractAddressCollision
  | ErrMaxCodeSizeExceeded
  | ErrInvalidCode
  | ErrCodeStoreOutOfGas
  | ErrExecutionReverted
  | ErrFault string

text \<open>The flags of \<^verbatim>\<open>params.Rules\<close> that evm.go reads.\<close>

record Rules =
  IsHomestead :: bool
  IsEIP158 :: bool
  IsByzantium :: bool
  IsIstanbul :: bool
  IsBerlin :: bool
  IsLondon :: bool

subsection \<open>The state database\<close>

text \<open>
  Modelled from the spec: the \<^verbatim>\<open>StateDB\<close> interface, whose implementation is not part of
  evm.go. The spec (section 6) lists what is consumed: checkpoint, rollback-to-checkpoint,
  account-exists, create-account, get/set nonce, get/set code, get code hash, get/add balance,
  mark-address-accessed; a rollback undoes every mutation performed after the matching
  checkpoint. The database is a table of accounts and the set of accessed addresses; a
  checkpoint handle is a copy of the database at the moment the checkpoint was taken.
\<close>

record account =
  acc_nonce :: uint64
  acc_balance :: int
  acc_code :: bytes

record StateDB =
  accounts :: "address \<rightharpoonup> account"
  accessList :: "address set"

text \<open>Modelled from the spec: the opaque checkpoint handle.\<close>

type_synonym snapshot = StateDB

text \<open>Modelled from the spec: the account record that is materialised on first reference.\<close>

definition emptyAccount :: account where
  "emptyAccount = \<lparr>acc_nonce = 0, acc_balance = 0, acc_code = []\<rparr>"

text \<open>Modelled from the spec: auto-vivification, the account at an address or a new one.\<close>

definition getOrNew :: "StateDB \<Rightarrow> address \<Rightarrow> account" where
  "getOrNew s a = (case accounts s a of None \<Rightarrow> emptyAccount | Some x \<Rightarrow> x)"

text \<open>Modelled from the spec: checkpoint.\<close>

definition Snapshot :: "StateDB \<Rightarrow> snapshot" where
  "Snapshot s = s"

text \<open>
  Modelled from the spec: rollback-to-checkpoint; every mutation after the checkpoint is
  undone, what was done before it (such as an access-list entry) stays.
\<close>

definition RevertToSnapshot :: "StateDB \<Rightarrow> snapshot \<Rightarrow> StateDB" where
  "RevertToSnapshot s snap = snap"

text \<open>Modelled from the spec: account-exists.\<close>

definition Exist :: "StateDB \<Rightarrow> address \<Rightarrow> bool" where
  "Exist s a = (accounts s a \<noteq> None)"

text \<open>
  Modelled from the spec: create-account. The new record has nonce 0 and no code; a balance
  already held at the address is kept.
\<close>

definition CreateAccount :: "StateDB \<Rightarrow> address \<Rightarrow> StateDB" where
  "CreateAccount s a =
     s\<lparr>accounts := (accounts s)(a \<mapsto> emptyAccount\<lparr>acc_balance := acc_balance (getOrNew s a)\<rparr>)\<rparr>"

text \<open>Modelled from the spec: get/set nonce.\<close>

definition GetNonce :: "StateDB \<Rightarrow> address \<Rightarrow> uint64" where
  "GetNonce s a = (case accounts s a of None \<Rightarrow> 0 | Some x \<Rightarrow> acc_nonce x)"

definition SetNonce :: "StateDB \<Rightarrow> address \<Rightarrow> uint64 \<Rightarrow> StateDB" where
  "SetNonce s a n = s\<lparr>accounts := (accounts s)(a \<mapsto> (getOrNew s a)\<lparr>acc_nonce := n\<rparr>)\<rparr>"

text \<open>Modelled from the spec: get/set code.\<close>

definition GetCode :: "StateDB \<Rightarrow> address \<Rightarrow> bytes" where
  "GetCode s a = (case accounts s a of None \<Rightarrow> [] | Some x \<Rightarrow> acc_code x)"

definition SetCode :: "StateDB \<Rightarrow> address \<Rightarrow> bytes \<Rightarrow> StateDB" where
  "SetCode s a c = s\<lparr>accounts := (accounts s)(a \<mapsto> (getOrNew s a)\<lparr>acc_code := c\<rparr>)\<rparr>"

text \<open>
  Modelled from the spec: get code hash. The zero hash when there is no account, otherwise
  the hash of the stored code (so the hash of the empty code for an account without code).
  The hash function is \<^verbatim>\<open>crypto.Keccak256Hash\<close>, a parameter.
\<close>

definition GetCodeHash :: "(bytes \<Rightarrow> hash) \<Rightarrow> StateDB \<Rightarrow> address \<Rightarrow> hash" where
  "GetCodeHash keccak s a = (case accounts s a of None \<Rightarrow> 0 | Some x \<Rightarrow> keccak (acc_code x))"

text \<open>Modelled from the spec: get balance.\<close>

definition GetBalance :: "StateDB \<Rightarrow> address \<Rightarrow> int" where
  "GetBalance s a = (case accounts s a of None \<Rightarrow> 0 | Some x \<Rightarrow> acc_balance x)"

text \<open>
  Modelled from the spec: add balance. It materialises the account record when there is
  none; with amount zero this is the "touch" that \<^verbatim>\<open>StaticCall\<close> relies on.
\<close>

definition AddBalance :: "StateDB \<Rightarrow> address \<Rightarrow> int \<Rightarrow> StateDB" where
  "AddBalance s a v =
     s\<lparr>accounts := (accounts s)(a \<mapsto> (getOrNew s a)\<lparr>acc_balance := acc_balance (getOrNew s a) + v\<rparr>)\<rparr>"

text \<open>Modelled from the spec: mark-address-accessed.\<close>

definition AddAddressToAccessList :: "StateDB \<Rightarrow> address \<Rightarrow> StateDB" where
  "AddAddressToAccessList s a = s\<lparr>accessList := insert a (accessList s)\<rparr>"

subsection \<open>Frames\<close>

text \<open>
  Modelled from the spec: the \<^verbatim>\<open>Contract\<close> object of contract.go (not part of evm.go), the
  "scoped execution frame" of the spec's data model: caller, self address, code image with
  its hash, remaining gas, value attached, and the delegate marker. \<^verbatim>\<open>UseGas\<close> attempts to
  deduct an amount from the remaining gas and reports whether it could.
\<close>

record Contract =
  CallerAddress :: address
  self :: address
  frame_value :: "int option"   \<comment> \<open>\<^verbatim>\<open>nil\<close> for a delegated frame\<close>
  Gas :: uint64
  Code :: bytes
  CodeHash :: hash
  CodeAddr :: "address option"
  delegate :: bool

text \<open>
  Modelled from the spec: the constructors and setters of the frame that evm.go calls
  (\<^verbatim>\<open>NewContract\<close>, \<^verbatim>\<open>AsDelegate\<close>, \<^verbatim>\<open>SetCallCode\<close>, \<^verbatim>\<open>SetCodeOptionalHash\<close>). A frame is
  created with the gas it is given; none of the setters changes the gas. A delegated frame
  is marked and carries the caller identity and the value of the frame that encloses it
  (its \<open>parent\<close>), not those of the immediate caller.
\<close>

definition NewContract :: "address \<Rightarrow> address \<Rightarrow> int option \<Rightarrow> uint64 \<Rightarrow> Contract" where
  "NewContract caller object v gas =
     \<lparr>CallerAddress = caller, self = object, frame_value = v, Gas = gas,
      Code = [], CodeHash = 0, CodeAddr = None, delegate = False\<rparr>"

definition AsDelegate :: "Contract \<Rightarrow> Contract \<Rightarrow> Contract" where
  "AsDelegate parent c =
     c\<lparr>CallerAddress := CallerAddress parent, frame_value := frame_value parent,
       delegate := True\<rparr>"

definition SetCallCode :: "Contract \<Rightarrow> address \<Rightarrow> hash \<Rightarrow> bytes \<Rightarrow> Contract" where
  "SetCallCode c addr h code = c\<lparr>Code := code, CodeHash := h, CodeAddr := Some addr\<rparr>"

text \<open>
  Modelled from the spec: \<^verbatim>\<open>UseGas\<close>, the attempt to deduct an amount from the remaining
  gas of the frame; with insufficient gas nothing is deducted.
\<close>

definition UseGas :: "Contract \<Rightarrow> uint64 \<Rightarrow> bool \<times> Contract" where
  "UseGas c gas = (if Gas c < gas then (False, c) else (True, c\<lparr>Gas := Gas c - gas\<rparr>))"

text \<open>\<^verbatim>\<open>codeAndHash\<close> (evm.go, lines 473-483): \<^verbatim>\<open>Hash\<close> fills the cached hash on first use.\<close>

record codeAndHash =
  cah_code :: bytes
  cah_hash :: hash

definition Hash :: "(bytes \<Rightarrow> hash) \<Rightarrow> codeAndHash \<Rightarrow> hash \<times> codeAndHash" where
  "Hash keccak c =
     (let c' = (if cah_hash c = 0 then c\<lparr>cah_hash := keccak (cah_code c)\<rparr> else c)
      in (cah_hash c', c'))"

definition SetCodeOptionalHash :: "Contract \<Rightarrow> address \<Rightarrow> codeAndHash \<Rightarrow> Contract" where
  "SetCodeOptionalHash c addr cah =
     c\<lparr>Code := cah_code cah, CodeHash := cah_hash cah, CodeAddr := Some addr\<rparr>"

subsection \<open>The machine and its collaborators\<close>

text \<open>
  Modelled from the spec: a precompiled contract is a callable from input bytes and a gas
  budget to output bytes, leftover gas and an error (spec, section 6);
  \<^verbatim>\<open>RunPrecompiledContract\<close> (contracts.go, not part of evm.go) invokes it.
\<close>

type_synonym PrecompiledContract = "bytes \<Rightarrow> uint64 \<Rightarrow> bytes \<times> uint64 \<times> error option"

definition RunPrecompiledContract ::
  "PrecompiledContract \<Rightarrow> bytes \<Rightarrow> uint64 \<Rightarrow> bytes \<times> uint64 \<times> error option" where
  "RunPrecompiledContract p input gas = p input gas"

text \<open>
  The fields of \<^verbatim>\<open>EVM\<close> that the call layer reads, and the package-level collaborators it
  calls, as parameters: the transfer guard and the transfer function of the block context,
  the depth counter, the chain rules, the interpreter, the four precompile tables, the hash
  and address-derivation functions of package crypto, and \<^verbatim>\<open>params.MaxCodeSize\<close>.
  The interpreter receives the frame, the input, the read-only flag and the database; it
  returns the output, the error, the frame (whose gas it has updated) and the database.
\<close>

record EVM =
  CanTransfer :: "StateDB \<Rightarrow> address \<Rightarrow> int \<Rightarrow> bool"
  Transfer :: "StateDB \<Rightarrow> address \<Rightarrow> address \<Rightarrow> int \<Rightarrow> StateDB"
  depth :: int
  chainRules :: Rules
  interpreter_Run ::
    "Contract \<Rightarrow> bytes \<Rightarrow> bool \<Rightarrow> StateDB \<Rightarrow> bytes \<times> error option \<times> Contract \<times> StateDB"
  PrecompiledContractsHomestead :: "address \<rightharpoonup> PrecompiledContract"
  PrecompiledContractsByzantium :: "address \<rightharpoonup> PrecompiledContract"
  PrecompiledContractsIstanbul :: "address \<rightharpoonup> PrecompiledContract"
  PrecompiledContractsBerlin :: "address \<rightharpoonup> PrecompiledContract"
  Keccak256Hash :: "bytes \<Rightarrow> hash"
  CreateAddress :: "address \<Rightarrow> uint64 \<Rightarrow> address"
  CreateAddress2 :: "address \<Rightarrow> 256 word \<Rightarrow> hash \<Rightarrow> address"
  MaxCodeSize :: nat

text \<open>
  \<^verbatim>\<open>params.CallCreateDepth\<close> and \<^verbatim>\<open>params.CreateDataGas\<close>, with the values that the
  comments of evm.go give (1024 at line 227, 200 at line 585).
\<close>

definition CallCreateDepth :: int where
  "CallCreateDepth = 1024"

definition CreateDataGas :: uint64 where
  "CreateDataGas = 200"

definition emptyCodeHash :: "EVM \<Rightarrow> hash" where
  "emptyCodeHash evm = Keccak256Hash evm []"

definition precompile :: "EVM \<Rightarrow> address \<Rightarrow> PrecompiledContract option" where
  "precompile evm addr =
     (if IsBerlin (chainRules evm) then PrecompiledContractsBerlin evm addr
      else if IsIstanbul (chainRules evm) then PrecompiledContractsIstanbul evm addr
      else if IsByzantium (chainRules evm) then PrecompiledContractsByzantium evm addr
      else PrecompiledContractsHomestead evm addr)"

subsection \<open>Results\<close>

record CallResult =
  ret :: bytes
  leftOverGas :: uint64
  err :: "error option"
  statedb :: StateDB

record CreateResult = CallResult +
  contractAddr :: address

subsection \<open>The four call variants\<close>

text \<open>
  The block that ends each of the four call variants (lines 314-324, 368-374, 408-414 and
  464-470 are the same code): on an error, revert to the snapshot and, unless the error is
  \<^verbatim>\<open>ErrExecutionReverted\<close>, set the gas to zero.
\<close>

definition revertOnError :: "snapshot \<Rightarrow> CallResult \<Rightarrow> CallResult" where
  "revertOnError snap r =
     (if err r \<noteq> None
      then r\<lparr>leftOverGas := (if err r \<noteq> Some ErrExecutionReverted then 0 else leftOverGas r),
             statedb := RevertToSnapshot (statedb r) snap\<rparr>
      else r)"

text \<open>The result of running a frame: \<^verbatim>\<open>ret, err = Run(...); gas = contract.Gas\<close>.\<close>

definition runFrame :: "EVM \<Rightarrow> Contract \<Rightarrow> bytes \<Rightarrow> bool \<Rightarrow> StateDB \<Rightarrow> CallResult" where
  "runFrame evm contract input readOnly s =
     (case interpreter_Run evm contract input readOnly s of
        (r, e, contract', s') \<Rightarrow> \<lparr>ret = r, leftOverGas = Gas contract', err = e, statedb = s'\<rparr>)"

definition runPrecompile :: "PrecompiledContract \<Rightarrow> bytes \<Rightarrow> uint64 \<Rightarrow> StateDB \<Rightarrow> CallResult" where
  "runPrecompile p input gas s =
     (case RunPrecompiledContract p input gas of
        (r, g, e) \<Rightarrow> \<lparr>ret = r, leftOverGas = g, err = e, statedb = s\<rparr>)"

text \<open>\<^verbatim>\<open>Call\<close>, lines 284-303: the dispatch to a precompile or to the interpreter.\<close>

definition Call_dispatch ::
  "EVM \<Rightarrow> address \<Rightarrow> address \<Rightarrow> bytes \<Rightarrow> uint64 \<Rightarrow> int \<Rightarrow> StateDB \<Rightarrow> CallResult" where
  "Call_dispatch evm caller addr input gas val s =
     (case precompile evm addr of
        Some p \<Rightarrow> runPrecompile p input gas s
      | None \<Rightarrow>
          (let code = GetCode s addr in
           if length code = 0
           then \<lparr>ret = [], leftOverGas = gas, err = None, statedb = s\<rparr>
           else
             (let contract = NewContract caller addr (Some val) gas;
                  contract = SetCallCode contract addr (GetCodeHash (Keccak256Hash evm) s addr) code
              in runFrame evm contract input False s)))"

text \<open>The state in which \<^verbatim>\<open>Call\<close> dispatches (lines 244-265): account set-up and transfer.\<close>

definition Call_setup :: "EVM \<Rightarrow> address \<Rightarrow> address \<Rightarrow> int \<Rightarrow> StateDB \<Rightarrow> StateDB" where
  "Call_setup evm caller addr val s =
     (let s1 = (if \<not> Exist s addr then CreateAccount s addr else s)
      in Transfer evm s1 caller addr val)"

definition Call ::
  "EVM \<Rightarrow> address \<Rightarrow> address \<Rightarrow> bytes \<Rightarrow> uint64 \<Rightarrow> int \<Rightarrow> StateDB \<Rightarrow> CallResult" where
  "Call evm caller addr input gas val s =
     (if depth evm > CallCreateDepth
      then \<lparr>ret = [], leftOverGas = gas, err = Some ErrDepth, statedb = s\<rparr>
      else if val \<noteq> 0 \<and> \<not> CanTransfer evm s caller val
      then \<lparr>ret = [], leftOverGas = gas, err = Some ErrInsufficientBalance, statedb = s\<rparr>
      else
        (let snap = Snapshot s;
             isPrecompile = (precompile evm addr \<noteq> None)
         in if \<not> Exist s addr \<and> \<not> isPrecompile \<and> IsEIP158 (chainRules evm) \<and> val = 0
            then \<lparr>ret = [], leftOverGas = gas, err = None, statedb = s\<rparr>
            else revertOnError snap
                   (Call_dispatch evm caller addr input gas val (Call_setup evm caller addr val s))))"

text \<open>\<^verbatim>\<open>CallCode\<close>, lines 357-367.\<close>

definition CallCode_dispatch ::
  "EVM \<Rightarrow> address \<Rightarrow> address \<Rightarrow> bytes \<Rightarrow> uint64 \<Rightarrow> int \<Rightarrow> StateDB \<Rightarrow> CallResult" where
  "CallCode_dispatch evm caller addr input gas val s =
     (case precompile evm addr of
        Some p \<Rightarrow> runPrecompile p input gas s
      | None \<Rightarrow>
          (let contract = NewContract caller caller (Some val) gas;
               contract = SetCallCode contract addr (GetCodeHash (Keccak256Hash evm) s addr)
                            (GetCode s addr)
           in runFrame evm contract input False s))"

definition CallCode ::
  "EVM \<Rightarrow> address \<Rightarrow> address \<Rightarrow> bytes \<Rightarrow> uint64 \<Rightarrow> int \<Rightarrow> StateDB \<Rightarrow> CallResult" where
  "CallCode evm caller addr input gas val s =
     (if depth evm > CallCreateDepth
      then \<lparr>ret = [], leftOverGas = gas, err = Some ErrDepth, statedb = s\<rparr>
      else if \<not> CanTransfer evm s caller val
      then \<lparr>ret = [], leftOverGas = gas, err = Some ErrInsufficientBalance, statedb = s\<rparr>
      else
        (let snap = Snapshot s
         in revertOnError snap (CallCode_dispatch evm caller addr input gas val s)))"

text \<open>
  \<^verbatim>\<open>DelegateCall\<close>, lines 398-407. The caller of a delegate call is itself a frame
  (\<^verbatim>\<open>AsDelegate\<close> needs it to be one); \<^verbatim>\<open>caller.Address()\<close> is its own address.
\<close>

definition DelegateCall_dispatch ::
  "EVM \<Rightarrow> Contract \<Rightarrow> address \<Rightarrow> bytes \<Rightarrow> uint64 \<Rightarrow> StateDB \<Rightarrow> CallResult" where
  "DelegateCall_dispatch evm caller addr input gas s =
     (case precompile evm addr of
        Some p \<Rightarrow> runPrecompile p input gas s
      | None \<Rightarrow>
          (let contract = AsDelegate caller (NewContract (self caller) (self caller) None gas);
               contract = SetCallCode contract addr (GetCodeHash (Keccak256Hash evm) s addr)
                            (GetCode s addr)
           in runFrame evm contract input False s))"

definition DelegateCall ::
  "EVM \<Rightarrow> Contract \<Rightarrow> address \<Rightarrow> bytes \<Rightarrow> uint64 \<Rightarrow> StateDB \<Rightarrow> CallResult" where
  "DelegateCall evm caller addr input gas s =
     (if depth evm > CallCreateDepth
      then \<lparr>ret = [], leftOverGas = gas, err = Some ErrDepth, statedb = s\<rparr>
      else
        (let snap = Snapshot s
         in revertOnError snap (DelegateCall_dispatch evm caller addr input gas s)))"

text \<open>\<^verbatim>\<open>StaticCall\<close>, lines 447-463; the frame runs read-only.\<close>

definition StaticCall_dispatch ::
  "EVM \<Rightarrow> address \<Rightarrow> address \<Rightarrow> bytes \<Rightarrow> uint64 \<Rightarrow> StateDB \<Rightarrow> CallResult" where
  "StaticCall_dispatch evm caller addr input gas s =
     (case precompile evm addr of
        Some p \<Rightarrow> runPrecompile p input gas s
      | None \<Rightarrow>
          (let contract = NewContract caller addr (Some 0) gas;
               contract = SetCallCode contract addr (GetCodeHash (Keccak256Hash evm) s addr)
                            (GetCode s addr)
           in runFrame evm contract input True s))"

definition StaticCall ::
  "EVM \<Rightarrow> address \<Rightarrow> address \<Rightarrow> bytes \<Rightarrow> uint64 \<Rightarrow> StateDB \<Rightarrow> CallResult" where
  "StaticCall evm caller addr input gas s =
     (if depth evm > CallCreateDepth
      then \<lparr>ret = [], leftOverGas = gas, err = Some ErrDepth, statedb = s\<rparr>
      else
        (let snap = Snapshot s;
             s1 = AddBalance s addr 0
         in revertOnError snap (StaticCall_dispatch evm caller addr input gas s1)))"

subsection \<open>Contract creation\<close>

text \<open>
  \<^verbatim>\<open>create\<close>, lines 510-521: the nonce bump of the caller and, under Berlin, the access-list
  entry, both before the snapshot. (The overflow test \<^verbatim>\<open>nonce+1 < nonce\<close> is in \<open>create\<close>.)
\<close>

definition create_prepare :: "EVM \<Rightarrow> address \<Rightarrow> address \<Rightarrow> StateDB \<Rightarrow> StateDB" where
  "create_prepare evm caller address s =
     (let nonce = GetNonce s caller;
          s1 = SetNonce s caller (nonce + 1)
      in if IsBerlin (chainRules evm) then AddAddressToAccessList s1 address else s1)"

text \<open>Lines 525-526: is there a contract at the designated address already?\<close>

definition create_collides :: "EVM \<Rightarrow> address \<Rightarrow> StateDB \<Rightarrow> bool" where
  "create_collides evm address s =
     (let contractHash = GetCodeHash (Keccak256Hash evm) s address
      in GetNonce s address \<noteq> 0 \<or> (contractHash \<noteq> 0 \<and> contractHash \<noteq> emptyCodeHash evm))"

text \<open>Lines 532-536: the new account, its nonce under EIP-158, and the transfer.\<close>

definition create_setup :: "EVM \<Rightarrow> address \<Rightarrow> address \<Rightarrow> int \<Rightarrow> StateDB \<Rightarrow> StateDB" where
  "create_setup evm caller address val s =
     (let s1 = CreateAccount s address;
          s2 = (if IsEIP158 (chainRules evm) then SetNonce s1 address 1 else s1)
      in Transfer evm s2 caller address val)"

text \<open>Lines 542-543: the frame bound to the deployment code.\<close>

definition create_contract :: "address \<Rightarrow> address \<Rightarrow> int \<Rightarrow> uint64 \<Rightarrow> codeAndHash \<Rightarrow> Contract" where
  "create_contract caller address val gas cah =
     SetCodeOptionalHash (NewContract caller address (Some val) gas) address cah"

text \<open>
  Lines 562-597: the checks on the output of the run, in the order of the source, and the
  charge for storing the code. The charge is a \<^verbatim>\<open>uint64\<close> product.
\<close>

definition create_validate ::
  "EVM \<Rightarrow> address \<Rightarrow> bytes \<Rightarrow> error option \<Rightarrow> Contract \<Rightarrow> StateDB
     \<Rightarrow> error option \<times> Contract \<times> StateDB" where
  "create_validate evm address r e contract s =
     (let e1 = (if e = None \<and> IsEIP158 (chainRules evm) \<and> length r > MaxCodeSize evm
                then Some ErrMaxCodeSizeExceeded else e);
          e2 = (if e1 = None \<and> length r \<ge> 1 \<and> r ! 0 = 0xEF \<and> IsLondon (chainRules evm)
                then Some ErrInvalidCode else e1)
      in if e2 = None
         then
           (let createDataGas = word_of_nat (length r) * CreateDataGas
            in case UseGas contract createDataGas of
                 (ok, contract') \<Rightarrow>
                   if ok then (e2, contract', SetCode s address r)
                   else (Some ErrCodeStoreOutOfGas, contract', s))
         else (e2, contract, s))"

text \<open>Lines 605-612: revert and consume the gas, but for the pre-Homestead exception.\<close>

definition create_finish ::
  "EVM \<Rightarrow> snapshot \<Rightarrow> error option \<Rightarrow> Contract \<Rightarrow> StateDB \<Rightarrow> Contract \<times> StateDB" where
  "create_finish evm snap e contract s =
     (if e \<noteq> None \<and> (IsHomestead (chainRules evm) \<or> e \<noteq> Some ErrCodeStoreOutOfGas)
      then
        (let s' = RevertToSnapshot s snap;
             contract' = (if e \<noteq> Some ErrExecutionReverted
                          then snd (UseGas contract (Gas contract)) else contract)
         in (contract', s'))
      else (contract, s))"

definition create ::
  "EVM \<Rightarrow> address \<Rightarrow> codeAndHash \<Rightarrow> uint64 \<Rightarrow> int \<Rightarrow> address \<Rightarrow> StateDB \<Rightarrow> CreateResult" where
  "create evm caller cah gas val address s =
     (if depth evm > CallCreateDepth
      then \<lparr>ret = [], leftOverGas = gas, err = Some ErrDepth, statedb = s, contractAddr = 0\<rparr>
      else if \<not> CanTransfer evm s caller val
      then \<lparr>ret = [], leftOverGas = gas, err = Some ErrInsufficientBalance, statedb = s,
            contractAddr = 0\<rparr>
      else
        (let nonce = GetNonce s caller
         in if nonce + 1 < nonce
            then \<lparr>ret = [], leftOverGas = gas, err = Some ErrNonceUintOverflow, statedb = s,
                  contractAddr = 0\<rparr>
            else
              (let s2 = create_prepare evm caller address s
               in if create_collides evm address s2
                  then \<lparr>ret = [], leftOverGas = 0, err = Some ErrContractAddressCollision,
                        statedb = s2, contractAddr = 0\<rparr>
                  else
                    (let snap = Snapshot s2;
                         s5 = create_setup evm caller address val s2;
                         contract = create_contract caller address val gas cah
                     in case interpreter_Run evm contract [] False s5 of
                          (r, e, contract1, s6) \<Rightarrow>
                            (case create_validate evm address r e contract1 s6 of
                               (e', contract2, s7) \<Rightarrow>
                                 (case create_finish evm snap e' contract2 s7 of
                                    (contract3, s8) \<Rightarrow>
                                      \<lparr>ret = r, leftOverGas = Gas contract3, err = e',
                                       statedb = s8, contractAddr = address\<rparr>))))))"

text \<open>
  \<^verbatim>\<open>Create\<close> and \<^verbatim>\<open>Create2\<close>, lines 625-638. The opcode argument of \<^verbatim>\<open>create\<close> only
  reaches the tracer.
\<close>

definition Create :: "EVM \<Rightarrow> address \<Rightarrow> bytes \<Rightarrow> uint64 \<Rightarrow> int \<Rightarrow> StateDB \<Rightarrow> CreateResult" where
  "Create evm caller code gas val s =
     (let contractAddr = CreateAddress evm caller (GetNonce s caller)
      in create evm caller \<lparr>cah_code = code, cah_hash = 0\<rparr> gas val contractAddr s)"

definition Create2 ::
  "EVM \<Rightarrow> address \<Rightarrow> bytes \<Rightarrow> uint64 \<Rightarrow> int \<Rightarrow> 256 word \<Rightarrow> StateDB \<Rightarrow> CreateResult" where
  "Create2 evm caller code gas endowment salt s =
     (case Hash (Keccak256Hash evm) \<lparr>cah_code = code, cah_hash = 0\<rparr> of
        (h, cah) \<Rightarrow>
          (let contractAddr = CreateAddress2 evm caller salt h
           in create evm caller cah gas endowment contractAddr s))"

subsection \<open>When a frame is entered\<close>

text \<open>
  The checks that \<^verbatim>\<open>create\<close> makes before it takes its snapshot (lines 504-528) all pass:
  depth, transfer guard, nonce overflow, collision.
\<close>

definition create_enters_frame :: "EVM \<Rightarrow> address \<Rightarrow> int \<Rightarrow> address \<Rightarrow> StateDB \<Rightarrow> bool" where
  "create_enters_frame evm caller val address s =
     (depth evm \<le> CallCreateDepth \<and> CanTransfer evm s caller val
      \<and> \<not> GetNonce s caller + 1 < GetNonce s caller
      \<and> \<not> create_collides evm address (create_prepare evm caller address s))"

text \<open>
  The checks of \<^verbatim>\<open>Call\<close> before its dispatch (lines 228-260) all pass: depth, transfer guard
  for a non-zero value, and the call is not the no-op on a non-existing account.
\<close>

definition Call_enters_frame :: "EVM \<Rightarrow> address \<Rightarrow> address \<Rightarrow> int \<Rightarrow> StateDB \<Rightarrow> bool" where
  "Call_enters_frame evm caller addr val s =
     (depth evm \<le> CallCreateDepth \<and> (val = 0 \<or> CanTransfer evm s caller val)
      \<and> (Exist s addr \<or> precompile evm addr \<noteq> None \<or> \<not> IsEIP158 (chainRules evm) \<or> val \<noteq> 0))"

subsection \<open>A concrete machine\<close>

text \<open>
  A small machine on which the theorems below are instantiated. The transfer guard and the
  transfer are those of a plain balance ledger. The toy interpreter charges 3 gas, then looks
  at the first byte of the code: \<open>0xF3\<close> returns the rest of the code as output, \<open>0xFD\<close>
  reverts with it, anything else is a fault; unless read-only it credits 1 to the frame's
  own address, a mutation that a rollback must undo. Address 4 is a precompile that copies
  its input for 15 gas.
\<close>

definition ex_CanTransfer :: "StateDB \<Rightarrow> address \<Rightarrow> int \<Rightarrow> bool" where
  "ex_CanTransfer s a v = (v \<le> GetBalance s a)"

definition ex_Transfer :: "StateDB \<Rightarrow> address \<Rightarrow> address \<Rightarrow> int \<Rightarrow> StateDB" where
  "ex_Transfer s sender recipient v = AddBalance (AddBalance s sender (- v)) recipient v"

definition ex_Run ::
  "Contract \<Rightarrow> bytes \<Rightarrow> bool \<Rightarrow> StateDB \<Rightarrow> bytes \<times> error option \<times> Contract \<times> StateDB" where
  "ex_Run c input readOnly s =
     (case UseGas c 3 of
        (ok, c') \<Rightarrow>
          if \<not> ok then ([], Some (ErrFault ''out of gas''), c', s)
          else
            (let s' = (if readOnly then s else AddBalance s (self c) 1)
             in case Code c of
                  [] \<Rightarrow> ([], None, c', s')
                | op # rest \<Rightarrow>
                    if op = 0xF3 then (rest, None, c', s')
                    else if op = 0xFD then (rest, Some ErrExecutionReverted, c', s')
                    else ([], Some (ErrFault ''invalid opcode''), c', s')))"

definition ex_dataCopy :: PrecompiledContract where
  "ex_dataCopy input gas =
     (if gas < 15 then ([], 0, Some (ErrFault ''out of gas'')) else (input, gas - 15, None))"

definition ex_precompiles :: "address \<rightharpoonup> PrecompiledContract" where
  "ex_precompiles = [4 \<mapsto> ex_dataCopy]"

definition ex_rules :: Rules where
  "ex_rules = \<lparr>IsHomestead = True, IsEIP158 = True, IsByzantium = True, IsIstanbul = True,
               IsBerlin = True, IsLondon = True\<rparr>"

definition ex_frontier :: Rules where
  "ex_frontier = \<lparr>IsHomestead = False, IsEIP158 = False, IsByzantium = False,
                  IsIstanbul = False, IsBerlin = False, IsLondon = False\<rparr>"

definition ex_evm :: EVM where
  "ex_evm =
     \<lparr>CanTransfer = ex_CanTransfer, Transfer = ex_Transfer, depth = 0, chainRules = ex_rules,
      interpreter_Run = ex_Run,
      PrecompiledContractsHomestead = ex_precompiles,
      PrecompiledContractsByzantium = ex_precompiles,
      PrecompiledContractsIstanbul = ex_precompiles,
      PrecompiledContractsBerlin = ex_precompiles,
      Keccak256Hash = (\<lambda>b. word_of_nat (length b) + 1),
      CreateAddress = (\<lambda>a n. a + 256 + ucast n),
      CreateAddress2 = (\<lambda>a salt h. a + 512 + ucast (salt + h)),
      MaxCodeSize = 24576\<rparr>"

text \<open>
  A database with an externally owned account \<open>0xA\<close> (balance 100), a contract \<open>0xB\<close> that
  reverts, a contract \<open>0xC\<close> that faults, a contract \<open>0xD\<close> that returns two bytes, and an
  account \<open>0xE\<close> with nonce 1. Nothing lives at \<open>0xF\<close>.
\<close>

definition ex_db :: StateDB where
  "ex_db =
     \<lparr>accounts =
        [0xA \<mapsto> \<lparr>acc_nonce = 0, acc_balance = 100, acc_code = []\<rparr>,
         0xB \<mapsto> \<lparr>acc_nonce = 1, acc_balance = 0, acc_code = [0xFD, 7]\<rparr>,
         0xC \<mapsto> \<lparr>acc_nonce = 1, acc_balance = 0, acc_code = [0xFE]\<rparr>,
         0xD \<mapsto> \<lparr>acc_nonce = 1, acc_balance = 0, acc_code = [0xF3, 1, 2]\<rparr>,
         0xE \<mapsto> \<lparr>acc_nonce = 1, acc_balance = 0, acc_code = []\<rparr>],
      accessList = {}\<rparr>"

text \<open>
  A frame of the contract \<open>0xD\<close>, called by \<open>0xA\<close> with value 3: the enclosing frame of the
  delegate calls below.
\<close>

definition ex_frame :: Contract where
  "ex_frame =
     \<lparr>CallerAddress = 0xA, self = 0xD, frame_value = Some 3, Gas = 5000,
      Code = [0xF3, 1, 2], CodeHash = 4, CodeAddr = Some 0xD, delegate = False\<rparr>"

subsection \<open>Gas accounting\<close>

text \<open>
  The error with which the first checks of an operation turn a frame away, before any
  snapshot is taken: lines 228-237 of \<^verbatim>\<open>Call\<close>, 336-345 of \<^verbatim>\<open>CallCode\<close>, 384-386 of
  \<^verbatim>\<open>DelegateCall\<close> and 423-425 of \<^verbatim>\<open>StaticCall\<close>, 504-513 of \<^verbatim>\<open>create\<close>.
\<close>

definition Call_rejected :: "EVM \<Rightarrow> address \<Rightarrow> int \<Rightarrow> StateDB \<Rightarrow> error option" where
  "Call_rejected evm caller val s =
     (if depth evm > CallCreateDepth then Some ErrDepth
      else if val \<noteq> 0 \<and> \<not> CanTransfer evm s caller val then Some ErrInsufficientBalance
      else None)"

definition CallCode_rejected :: "EVM \<Rightarrow> address \<Rightarrow> int \<Rightarrow> StateDB \<Rightarrow> error option" where
  "CallCode_rejected evm caller val s =
     (if depth evm > CallCreateDepth then Some ErrDepth
      else if \<not> CanTransfer evm s caller val then Some ErrInsufficientBalance
      else None)"

definition depth_rejected :: "EVM \<Rightarrow> error option" where
  "depth_rejected evm = (if depth evm > CallCreateDepth then Some ErrDepth else None)"

definition create_rejected :: "EVM \<Rightarrow> address \<Rightarrow> int \<Rightarrow> StateDB \<Rightarrow> error option" where
  "create_rejected evm caller val s =
     (if depth evm > CallCreateDepth then Some ErrDepth
      else if \<not> CanTransfer evm s caller val then Some ErrInsufficientBalance
      else if GetNonce s caller + 1 < GetNonce s caller then Some ErrNonceUintOverflow
      else None)"

text \<open>The gas of the frame of \<^verbatim>\<open>create\<close> when the interpreter returns (line 558).\<close>

definition create_run_gas ::
  "EVM \<Rightarrow> address \<Rightarrow> codeAndHash \<Rightarrow> uint64 \<Rightarrow> int \<Rightarrow> address \<Rightarrow> StateDB \<Rightarrow> uint64" where
  "create_run_gas evm caller cah gas val address s =
     (case interpreter_Run evm (create_contract caller address val gas cah) [] False
             (create_setup evm caller address val (create_prepare evm caller address s)) of
        (r, e, contract, s') \<Rightarrow> Gas contract)"

text \<open>
  The rule for the gas \<open>g\<close> and the error \<open>e\<close> that a call variant returns when it was given
  \<open>gas\<close>: \<open>g\<close> is no more than \<open>gas\<close>; a frame that its first checks reject returns their
  error and exactly \<open>gas\<close>; any other frame returns no error, or \<^verbatim>\<open>ErrExecutionReverted\<close>, or
  no gas.
\<close>

definition call_gas_rule :: "error option \<Rightarrow> uint64 \<Rightarrow> uint64 \<Rightarrow> error option \<Rightarrow> bool" where
  "call_gas_rule rejected gas g e =
     (g \<le> gas \<and>
      (case rejected of
         Some x \<Rightarrow> e = Some x \<and> g = gas
       | None \<Rightarrow> e = None \<or> e = Some ErrExecutionReverted \<or> g = 0))"

text \<open>
  The same rule for a creation, with one more case: when the Homestead rules are not active
  (\<open>legacy\<close>) and the error is \<^verbatim>\<open>ErrCodeStoreOutOfGas\<close>, the gas returned is exactly \<open>runGas\<close>,
  the gas that the run left.
\<close>

definition create_gas_rule ::
  "error option \<Rightarrow> bool \<Rightarrow> uint64 \<Rightarrow> uint64 \<Rightarrow> uint64 \<Rightarrow> error option \<Rightarrow> bool" where
  "create_gas_rule rejected legacy runGas gas g e =
     (g \<le> gas \<and>
      (case rejected of
         Some x \<Rightarrow> e = Some x \<and> g = gas
       | None \<Rightarrow>
           if legacy \<and> e = Some ErrCodeStoreOutOfGas then g = runGas
           else e = None \<or> e = Some ErrExecutionReverted \<or> g = 0))"

section \<open>Properties\<close>

lemmas ex_defs = ex_evm_def ex_db_def ex_rules_def ex_frontier_def ex_precompiles_def
  ex_dataCopy_def ex_Run_def ex_CanTransfer_def ex_Transfer_def ex_frame_def

lemmas db_defs = Snapshot_def RevertToSnapshot_def Exist_def CreateAccount_def GetNonce_def
  SetNonce_def GetCode_def SetCode_def GetCodeHash_def GetBalance_def AddBalance_def
  AddAddressToAccessList_def getOrNew_def emptyAccount_def

lemmas frame_defs = NewContract_def AsDelegate_def SetCallCode_def UseGas_def Hash_def
  SetCodeOptionalHash_def RunPrecompiledContract_def runFrame_def runPrecompile_def
  precompile_def CallCreateDepth_def CreateDataGas_def emptyCodeHash_def

lemmas call_defs = Call_dispatch_def Call_setup_def Call_def CallCode_dispatch_def CallCode_def
  DelegateCall_dispatch_def DelegateCall_def StaticCall_dispatch_def StaticCall_def
  revertOnError_def Call_enters_frame_def

lemmas create_defs = create_prepare_def create_collides_def create_setup_def
  create_contract_def create_validate_def create_finish_def create_def Create_def Create2_def
  create_enters_frame_def

subsection \<open>The four call variants after their checks\<close>

lemma revertOnError_err:
  "err d = Some e \<Longrightarrow>
   revertOnError snap d =
     d\<lparr>leftOverGas := (if e = ErrExecutionReverted then leftOverGas d else 0), statedb := snap\<rparr>"
  by (simp add: revertOnError_def RevertToSnapshot_def)

lemma Call_enters:
  "Call_enters_frame evm caller addr val s \<Longrightarrow>
   Call evm caller addr input gas val s =
     revertOnError (Snapshot s)
       (Call_dispatch evm caller addr input gas val (Call_setup evm caller addr val s))"
  by (auto simp add: Call_def Call_enters_frame_def Let_def)

lemma CallCode_enters:
  "depth evm \<le> CallCreateDepth \<Longrightarrow> CanTransfer evm s caller val \<Longrightarrow>
   CallCode evm caller addr input gas val s =
     revertOnError (Snapshot s) (CallCode_dispatch evm caller addr input gas val s)"
  by (simp add: CallCode_def Let_def)

lemma DelegateCall_enters:
  "depth evm \<le> CallCreateDepth \<Longrightarrow>
   DelegateCall evm parent addr input gas s =
     revertOnError (Snapshot s) (DelegateCall_dispatch evm parent addr input gas s)"
  by (simp add: DelegateCall_def Let_def)

lemma StaticCall_enters:
  "depth evm \<le> CallCreateDepth \<Longrightarrow>
   StaticCall evm caller addr input gas s =
     revertOnError (Snapshot s)
       (StaticCall_dispatch evm caller addr input gas (AddBalance s addr 0))"
  by (simp add: StaticCall_def Let_def)

text \<open>
  Claim C1. For each of \<^verbatim>\<open>Call\<close>, \<^verbatim>\<open>CallCode\<close>, \<^verbatim>\<open>DelegateCall\<close> and \<^verbatim>\<open>StaticCall\<close>:
  when the frame has passed its checks and the dispatched execution (precompile or
  interpreter) returns an error \<open>e\<close>, the database returned is the one reverted to the
  snapshot that the frame took, which is the database the frame was entered with; the error
  and the output are passed on; and the gas returned is zero unless \<open>e\<close> is
  \<^verbatim>\<open>ErrExecutionReverted\<close>, in which case it is the gas that the dispatched execution
  reported.
\<close>

theorem call_error_rolls_back:
  "(Call_enters_frame evm caller addr val s \<and>
    err (Call_dispatch evm caller addr input gas val (Call_setup evm caller addr val s)) = Some e
    \<longrightarrow>
    (let d = Call_dispatch evm caller addr input gas val (Call_setup evm caller addr val s);
         r = Call evm caller addr input gas val s
     in statedb r = RevertToSnapshot (statedb d) (Snapshot s) \<and> statedb r = s
        \<and> err r = Some e \<and> ret r = ret d
        \<and> leftOverGas r = (if e = ErrExecutionReverted then leftOverGas d else 0)))
   \<and>
   (depth evm \<le> CallCreateDepth \<and> CanTransfer evm s caller val \<and>
    err (CallCode_dispatch evm caller addr input gas val s) = Some e
    \<longrightarrow>
    (let d = CallCode_dispatch evm caller addr input gas val s;
         r = CallCode evm caller addr input gas val s
     in statedb r = RevertToSnapshot (statedb d) (Snapshot s) \<and> statedb r = s
        \<and> err r = Some e \<and> ret r = ret d
        \<and> leftOverGas r = (if e = ErrExecutionReverted then leftOverGas d else 0)))
   \<and>
   (depth evm \<le> CallCreateDepth \<and>
    err (DelegateCall_dispatch evm parent addr input gas s) = Some e
    \<longrightarrow>
    (let d = DelegateCall_dispatch evm parent addr input gas s;
         r = DelegateCall evm parent addr input gas s
     in statedb r = RevertToSnapshot (statedb d) (Snapshot s) \<and> statedb r = s
        \<and> err r = Some e \<and> ret r = ret d
        \<and> leftOverGas r = (if e = ErrExecutionReverted then leftOverGas d else 0)))
   \<and>
   (depth evm \<le> CallCreateDepth \<and>
    err (StaticCall_dispatch evm caller addr input gas (AddBalance s addr 0)) = Some e
    \<longrightarrow>
    (let d = StaticCall_dispatch evm caller addr input gas (AddBalance s addr 0);
         r = StaticCall evm caller addr input gas s
     in statedb r = RevertToSnapshot (statedb d) (Snapshot s) \<and> statedb r = s
        \<and> err r = Some e \<and> ret r = ret d
        \<and> leftOverGas r = (if e = ErrExecutionReverted then leftOverGas d else 0)))"
  by (simp add: Call_enters CallCode_enters DelegateCall_enters StaticCall_enters
      revertOnError_err Let_def RevertToSnapshot_def Snapshot_def)

text \<open>
  The theorem at work: the contract at \<open>0xB\<close> reverts after using 3 of 1000 gas and after
  crediting itself (not so in the read-only frame); at \<open>0xC\<close> the frame faults.
\<close>

theorem call_error_rolls_back_witness:
  "Call_enters_frame ex_evm 0xA 0xB 0 ex_db
   \<and> err (Call_dispatch ex_evm 0xA 0xB [] 1000 0 (Call_setup ex_evm 0xA 0xB 0 ex_db))
       = Some ErrExecutionReverted
   \<and> GetBalance (statedb (Call_dispatch ex_evm 0xA 0xB [] 1000 0
        (Call_setup ex_evm 0xA 0xB 0 ex_db))) 0xB = 1
   \<and> depth ex_evm \<le> CallCreateDepth \<and> CanTransfer ex_evm ex_db 0xA 0
   \<and> err (CallCode_dispatch ex_evm 0xA 0xB [] 1000 0 ex_db) = Some ErrExecutionReverted
   \<and> err (DelegateCall_dispatch ex_evm ex_frame 0xB [] 1000 ex_db) = Some ErrExecutionReverted
   \<and> GetBalance (statedb (DelegateCall_dispatch ex_evm ex_frame 0xB [] 1000 ex_db)) 0xD = 1
   \<and> err (StaticCall_dispatch ex_evm 0xA 0xB [] 1000 (AddBalance ex_db 0xB 0))
       = Some ErrExecutionReverted
   \<and> statedb (Call ex_evm 0xA 0xB [] 1000 0 ex_db) = ex_db
   \<and> leftOverGas (Call ex_evm 0xA 0xB [] 1000 0 ex_db) = 997
   \<and> statedb (CallCode ex_evm 0xA 0xB [] 1000 0 ex_db) = ex_db
   \<and> leftOverGas (CallCode ex_evm 0xA 0xB [] 1000 0 ex_db) = 997
   \<and> statedb (DelegateCall ex_evm ex_frame 0xB [] 1000 ex_db) = ex_db
   \<and> leftOverGas (DelegateCall ex_evm ex_frame 0xB [] 1000 ex_db) = 997
   \<and> statedb (StaticCall ex_evm 0xA 0xB [] 1000 ex_db) = ex_db
   \<and> leftOverGas (StaticCall ex_evm 0xA 0xB [] 1000 ex_db) = 997
   \<and> err (Call_dispatch ex_evm 0xA 0xC [] 1000 0 (Call_setup ex_evm 0xA 0xC 0 ex_db))
       = Some (ErrFault ''invalid opcode'')
   \<and> statedb (Call ex_evm 0xA 0xC [] 1000 0 ex_db) = ex_db
   \<and> leftOverGas (Call ex_evm 0xA 0xC [] 1000 0 ex_db) = 0"
  using call_error_rolls_back [where evm = ex_evm and caller = "0xA" and addr = "0xB"
      and val = 0 and s = ex_db and input = "[]" and gas = 1000 and e = ErrExecutionReverted
      and parent = ex_frame]
    call_error_rolls_back [where evm = ex_evm and caller = "0xA" and addr = "0xC"
      and val = 0 and s = ex_db and input = "[]" and gas = 1000
      and e = "ErrFault ''invalid opcode''" and parent = ex_frame]
  by (simp add: ex_defs db_defs frame_defs call_defs Let_def)

subsection \<open>The depth limit\<close>

text \<open>
  Claim C2, as amended. When the depth counter exceeds the maximum of 1024, every call and
  create variant fails with \<^verbatim>\<open>ErrDepth\<close>, returns the gas it was given, and leaves the
  database as it was.
\<close>

theorem depth_exceeded:
  "1024 < depth evm \<Longrightarrow>
     Call evm caller addr input gas val s
       = \<lparr>ret = [], leftOverGas = gas, err = Some ErrDepth, statedb = s\<rparr>
   \<and> CallCode evm caller addr input gas val s
       = \<lparr>ret = [], leftOverGas = gas, err = Some ErrDepth, statedb = s\<rparr>
   \<and> DelegateCall evm parent addr input gas s
       = \<lparr>ret = [], leftOverGas = gas, err = Some ErrDepth, statedb = s\<rparr>
   \<and> StaticCall evm caller addr input gas s
       = \<lparr>ret = [], leftOverGas = gas, err = Some ErrDepth, statedb = s\<rparr>
   \<and> create evm caller cah gas val address s
       = \<lparr>ret = [], leftOverGas = gas, err = Some ErrDepth, statedb = s, contractAddr = 0\<rparr>
   \<and> Create evm caller code gas val s
       = \<lparr>ret = [], leftOverGas = gas, err = Some ErrDepth, statedb = s, contractAddr = 0\<rparr>
   \<and> Create2 evm caller code gas val salt s
       = \<lparr>ret = [], leftOverGas = gas, err = Some ErrDepth, statedb = s, contractAddr = 0\<rparr>"
  by (simp add: Call_def CallCode_def DelegateCall_def StaticCall_def create_def Create_def
      Create2_def CallCreateDepth_def Let_def split: prod.split)

theorem depth_exceeded_witness:
  "1024 < depth (ex_evm\<lparr>depth := 1025\<rparr>)
   \<and> err (Call (ex_evm\<lparr>depth := 1025\<rparr>) 0xA 0xD [] 1000 0 ex_db) = Some ErrDepth
   \<and> leftOverGas (Call (ex_evm\<lparr>depth := 1025\<rparr>) 0xA 0xD [] 1000 0 ex_db) = 1000
   \<and> statedb (Call (ex_evm\<lparr>depth := 1025\<rparr>) 0xA 0xD [] 1000 0 ex_db) = ex_db
   \<and> err (Create (ex_evm\<lparr>depth := 1025\<rparr>) 0xA [0xF3, 1] 1000 0 ex_db) = Some ErrDepth
   \<and> leftOverGas (Create (ex_evm\<lparr>depth := 1025\<rparr>) 0xA [0xF3, 1] 1000 0 ex_db) = 1000
   \<and> statedb (Create (ex_evm\<lparr>depth := 1025\<rparr>) 0xA [0xF3, 1] 1000 0 ex_db) = ex_db
   \<and> DelegateCall (ex_evm\<lparr>depth := 1025\<rparr>) ex_frame 0xD [] 1000 ex_db
       = \<lparr>ret = [], leftOverGas = 1000, err = Some ErrDepth, statedb = ex_db\<rparr>"
  using depth_exceeded [where evm = "ex_evm\<lparr>depth := 1025\<rparr>" and caller = "0xA"
      and addr = "0xD" and input = "[]" and gas = 1000 and val = 0 and s = ex_db
      and code = "[0xF3, 1]" and parent = ex_frame]
  by (simp add: ex_evm_def)

text \<open>
  Claim C2 as stated fails when the depth counter equals 1024: the test of the source is
  \<^verbatim>\<open>evm.depth > int(params.CallCreateDepth)\<close>, so a frame at depth 1024 still runs. On the
  concrete machine a call to \<open>0xD\<close> succeeds, returns two bytes, uses gas and changes the
  database, and a creation deploys its code.
\<close>

theorem depth_at_maximum_counterexample:
  "depth (ex_evm\<lparr>depth := 1024\<rparr>) = 1024
   \<and> err (Call (ex_evm\<lparr>depth := 1024\<rparr>) 0xA 0xD [] 1000 0 ex_db) = None
   \<and> ret (Call (ex_evm\<lparr>depth := 1024\<rparr>) 0xA 0xD [] 1000 0 ex_db) = [1, 2]
   \<and> leftOverGas (Call (ex_evm\<lparr>depth := 1024\<rparr>) 0xA 0xD [] 1000 0 ex_db) = 997
   \<and> GetBalance (statedb (Call (ex_evm\<lparr>depth := 1024\<rparr>) 0xA 0xD [] 1000 0 ex_db)) 0xD = 1
   \<and> GetBalance ex_db 0xD = 0
   \<and> err (Create (ex_evm\<lparr>depth := 1024\<rparr>) 0xA [0xF3, 1] 1000 0 ex_db) = None
   \<and> GetCode (statedb (Create (ex_evm\<lparr>depth := 1024\<rparr>) 0xA [0xF3, 1] 1000 0 ex_db)) 0x10A = [1]"
  by (simp add: ex_defs db_defs frame_defs call_defs create_defs Let_def)

subsection \<open>Creation: what precedes the snapshot\<close>

lemma nonce_succ_nonzero: "\<not> n + 1 < n \<Longrightarrow> n + 1 \<noteq> (0 :: uint64)"
  by (metis word_gt_0 zero_neq_one add_0)

lemma GetNonce_create_prepare:
  "GetNonce (create_prepare evm caller address s) a =
     (if a = caller then GetNonce s caller + 1 else GetNonce s a)"
  by (simp add: create_prepare_def GetNonce_def SetNonce_def AddAddressToAccessList_def Let_def)

lemma GetCodeHash_create_prepare:
  "a \<noteq> caller \<Longrightarrow>
   GetCodeHash k (create_prepare evm caller address s) a = GetCodeHash k s a"
  by (simp add: create_prepare_def GetCodeHash_def SetNonce_def AddAddressToAccessList_def Let_def)

lemma accessList_create_prepare:
  "accessList (create_prepare evm caller address s) =
     (if IsBerlin (chainRules evm) then insert address (accessList s) else accessList s)"
  by (simp add: create_prepare_def SetNonce_def AddAddressToAccessList_def Let_def)

lemma create_collides_prepare:
  assumes "\<not> GetNonce s caller + 1 < GetNonce s caller"
    and "create_collides evm address s"
  shows "create_collides evm address (create_prepare evm caller address s)"
proof (cases "address = caller")
  case True
  with assms(1) show ?thesis
    by (simp add: create_collides_def GetNonce_create_prepare nonce_succ_nonzero Let_def)
next
  case False
  with assms(2) show ?thesis
    by (simp add: create_collides_def GetNonce_create_prepare GetCodeHash_create_prepare Let_def)
qed

text \<open>
  Claim C3, as amended. When \<^verbatim>\<open>create\<close> has passed the depth check, the transfer guard and
  the nonce-overflow check, and the target address already has a non-zero nonce or a code
  hash that is neither the zero hash nor the hash of the empty code, it fails with
  \<^verbatim>\<open>ErrContractAddressCollision\<close> and returns leftover gas zero; no snapshot has been taken
  and nothing is rolled back: the database returned is the one with the caller's nonce
  incremented by 1 (and, under Berlin, the address marked as accessed).
\<close>

theorem create_collision:
  assumes "depth evm \<le> CallCreateDepth"
    and "CanTransfer evm s caller val"
    and "\<not> GetNonce s caller + 1 < GetNonce s caller"
    and "GetNonce s address \<noteq> 0
         \<or> (GetCodeHash (Keccak256Hash evm) s address \<noteq> 0
            \<and> GetCodeHash (Keccak256Hash evm) s address \<noteq> emptyCodeHash evm)"
  shows "create evm caller cah gas val address s =
           \<lparr>ret = [], leftOverGas = 0, err = Some ErrContractAddressCollision,
            statedb = create_prepare evm caller address s, contractAddr = 0\<rparr>
         \<and> GetNonce (create_prepare evm caller address s) caller = GetNonce s caller + 1"
proof -
  from assms(4) have "create_collides evm address s"
    by (simp add: create_collides_def Let_def)
  with assms(3) have "create_collides evm address (create_prepare evm caller address s)"
    by (rule create_collides_prepare)
  with assms(1-3) show ?thesis
    by (simp add: create_def Let_def GetNonce_create_prepare)
qed

theorem create_collision_witness:
  "depth ex_evm \<le> CallCreateDepth \<and> CanTransfer ex_evm ex_db 0xA 5
   \<and> \<not> GetNonce ex_db 0xA + 1 < GetNonce ex_db 0xA
   \<and> GetNonce ex_db 0xE = 1
   \<and> err (create ex_evm 0xA \<lparr>cah_code = [0xF3, 1], cah_hash = 0\<rparr> 1000 5 0xE ex_db)
       = Some ErrContractAddressCollision
   \<and> leftOverGas (create ex_evm 0xA \<lparr>cah_code = [0xF3, 1], cah_hash = 0\<rparr> 1000 5 0xE ex_db) = 0
   \<and> GetNonce (statedb (create ex_evm 0xA \<lparr>cah_code = [0xF3, 1], cah_hash = 0\<rparr> 1000 5 0xE ex_db)) 0xA = 1
   \<and> GetNonce ex_db 0xA = 0"
  using create_collision [of ex_evm ex_db "0xA" 5 "0xE" "\<lparr>cah_code = [0xF3, 1], cah_hash = 0\<rparr>" 1000]
  by (simp add: ex_defs db_defs frame_defs create_defs Let_def)

text \<open>
  Claim C3 as stated says that the gas given is returned in full. The source returns 0
  (line 527): creating at \<open>0xE\<close>, whose nonce is 1, with 1000 gas leaves no gas. And a
  creation at \<open>0xE\<close> that the depth check or the transfer guard rejects never reaches the
  collision test: it fails with their error and the caller's nonce is not incremented.
\<close>

theorem create_collision_gas_counterexample:
  "GetNonce ex_db 0xE = 1
   \<and> err (create ex_evm 0xA \<lparr>cah_code = [0xF3, 1], cah_hash = 0\<rparr> 1000 5 0xE ex_db)
       = Some ErrContractAddressCollision
   \<and> leftOverGas (create ex_evm 0xA \<lparr>cah_code = [0xF3, 1], cah_hash = 0\<rparr> 1000 5 0xE ex_db) = 0
   \<and> leftOverGas (create ex_evm 0xA \<lparr>cah_code = [0xF3, 1], cah_hash = 0\<rparr> 1000 5 0xE ex_db) \<noteq> 1000
   \<and> err (create (ex_evm\<lparr>depth := 1025\<rparr>) 0xA \<lparr>cah_code = [0xF3, 1], cah_hash = 0\<rparr> 1000 5 0xE
        ex_db) = Some ErrDepth
   \<and> GetNonce (statedb (create (ex_evm\<lparr>depth := 1025\<rparr>) 0xA
        \<lparr>cah_code = [0xF3, 1], cah_hash = 0\<rparr> 1000 5 0xE ex_db)) 0xA = 0
   \<and> err (create ex_evm 0xA \<lparr>cah_code = [0xF3, 1], cah_hash = 0\<rparr> 1000 500 0xE ex_db)
       = Some ErrInsufficientBalance
   \<and> GetNonce (statedb (create ex_evm 0xA \<lparr>cah_code = [0xF3, 1], cah_hash = 0\<rparr> 1000 500 0xE
        ex_db)) 0xA = 0"
  by (simp add: ex_defs db_defs frame_defs create_defs Let_def)

subsection \<open>A call to an account that does not exist\<close>

text \<open>
  Claim C4, as amended. A \<^verbatim>\<open>Call\<close> within the depth limit to an address that does not
  exist in the database and is not a precompile, with value zero, under the EIP-158 rules,
  returns no error, empty output and the gas it was given; the database is unchanged, and
  so the account still does not exist.
\<close>

theorem call_nonexistent_noop:
  "depth evm \<le> CallCreateDepth \<Longrightarrow> \<not> Exist s addr \<Longrightarrow> precompile evm addr = None \<Longrightarrow>
   IsEIP158 (chainRules evm) \<Longrightarrow>
   Call evm caller addr input gas 0 s
     = \<lparr>ret = [], leftOverGas = gas, err = None, statedb = s\<rparr>
   \<and> \<not> Exist (statedb (Call evm caller addr input gas 0 s)) addr"
  by (simp add: Call_def Let_def)

theorem call_nonexistent_noop_witness:
  "depth ex_evm \<le> CallCreateDepth \<and> \<not> Exist ex_db 0xF \<and> precompile ex_evm 0xF = None
   \<and> IsEIP158 (chainRules ex_evm)
   \<and> Call ex_evm 0xA 0xF [1, 2] 1000 0 ex_db
       = \<lparr>ret = [], leftOverGas = 1000, err = None, statedb = ex_db\<rparr>
   \<and> \<not> Exist (statedb (Call ex_evm 0xA 0xF [1, 2] 1000 0 ex_db)) 0xF"
  using call_nonexistent_noop [of ex_evm ex_db "0xF" "0xA" "[1, 2]" 1000]
  by (simp add: ex_defs db_defs frame_defs)

text \<open>
  Claim C4 as stated covers every such call; above the depth limit the depth check comes
  first and the call fails with \<^verbatim>\<open>ErrDepth\<close>.
\<close>

theorem call_nonexistent_depth_counterexample:
  "\<not> Exist ex_db 0xF \<and> precompile (ex_evm\<lparr>depth := 1025\<rparr>) 0xF = None
   \<and> IsEIP158 (chainRules (ex_evm\<lparr>depth := 1025\<rparr>))
   \<and> err (Call (ex_evm\<lparr>depth := 1025\<rparr>) 0xA 0xF [1, 2] 1000 0 ex_db) = Some ErrDepth"
  by (simp add: ex_defs db_defs frame_defs call_defs)

subsection \<open>Creation: after the run\<close>

lemma create_enters:
  assumes "create_enters_frame evm caller val address s"
    and "interpreter_Run evm (create_contract caller address val gas cah) [] False
           (create_setup evm caller address val (create_prepare evm caller address s))
         = (r, e0, c1, s6)"
  shows "create evm caller cah gas val address s =
           (case create_validate evm address r e0 c1 s6 of
              (e', c2, s7) \<Rightarrow>
                (case create_finish evm (Snapshot (create_prepare evm caller address s)) e' c2 s7 of
                   (c3, s8) \<Rightarrow>
                     \<lparr>ret = r, leftOverGas = Gas c3, err = e', statedb = s8,
                      contractAddr = address\<rparr>))"
  using assms by (simp add: create_def create_enters_frame_def Let_def)

lemma create_validate_error:
  "e0 \<noteq> None \<Longrightarrow> create_validate evm address r e0 c1 s6 = (e0, c1, s6)"
  by (auto simp add: create_validate_def Let_def)

lemma create_validate_ok:
  "create_validate evm address r None c1 s6 =
     (if IsEIP158 (chainRules evm) \<and> length r > MaxCodeSize evm
      then (Some ErrMaxCodeSizeExceeded, c1, s6)
      else if IsLondon (chainRules evm) \<and> length r \<ge> 1 \<and> r ! 0 = 0xEF
      then (Some ErrInvalidCode, c1, s6)
      else if Gas c1 < word_of_nat (length r) * CreateDataGas
      then (Some ErrCodeStoreOutOfGas, c1, s6)
      else (None, c1\<lparr>Gas := Gas c1 - word_of_nat (length r) * CreateDataGas\<rparr>,
            SetCode s6 address r))"
  by (auto simp add: create_validate_def UseGas_def Let_def)

lemma create_validate_keeps:
  "create_validate evm address r e0 c1 s6 = (Some e, c2, s7) \<Longrightarrow> c2 = c1 \<and> s7 = s6"
  by (cases e0) (auto simp add: create_validate_ok create_validate_error split: if_splits)

lemma create_finish_error:
  "create_finish evm snap (Some e) c s =
     (if IsHomestead (chainRules evm) \<or> e \<noteq> ErrCodeStoreOutOfGas
      then (if e = ErrExecutionReverted then c else c\<lparr>Gas := 0\<rparr>, snap)
      else (c, s))"
  by (simp add: create_finish_def UseGas_def RevertToSnapshot_def Let_def)

lemma create_finish_ok: "create_finish evm snap None c s = (c, s)"
  by (simp add: create_finish_def)

text \<open>
  Claim C5. When \<^verbatim>\<open>create\<close> has entered its frame (all its checks passed, the snapshot was
  taken of the database with the nonce bump, and the interpreter returned from the database
  set up for the new account) and ends with an error \<open>e\<close>: if \<open>e\<close> is
  \<^verbatim>\<open>ErrCodeStoreOutOfGas\<close> and the Homestead rules are not active, nothing is reverted (the
  database is the one the interpreter left, with the new account and the transfer) and the
  gas is what the interpreter left; in every other case the database is reverted to the
  snapshot, and the gas is zero unless \<open>e\<close> is \<^verbatim>\<open>ErrExecutionReverted\<close>, which keeps the
  gas of the frame.
\<close>

theorem create_error_handling:
  assumes "create_enters_frame evm caller val address s"
    and "interpreter_Run evm (create_contract caller address val gas cah) [] False
           (create_setup evm caller address val (create_prepare evm caller address s))
         = (r, e0, c1, s6)"
    and "err (create evm caller cah gas val address s) = Some e"
  shows "(let res = create evm caller cah gas val address s;
              s2 = create_prepare evm caller address s
          in if e = ErrCodeStoreOutOfGas \<and> \<not> IsHomestead (chainRules evm)
             then statedb res = s6 \<and> leftOverGas res = Gas c1
             else statedb res = RevertToSnapshot s6 (Snapshot s2) \<and> statedb res = s2
                  \<and> leftOverGas res = (if e = ErrExecutionReverted then Gas c1 else 0))"
proof -
  obtain e' c2 s7 where v: "create_validate evm address r e0 c1 s6 = (e', c2, s7)"
    by (cases "create_validate evm address r e0 c1 s6") auto
  obtain c3 s8 where
    f: "create_finish evm (Snapshot (create_prepare evm caller address s)) e' c2 s7 = (c3, s8)"
    by (cases "create_finish evm (Snapshot (create_prepare evm caller address s)) e' c2 s7") auto
  have res: "create evm caller cah gas val address s =
      \<lparr>ret = r, leftOverGas = Gas c3, err = e', statedb = s8, contractAddr = address\<rparr>"
    using create_enters [OF assms(1,2)] v f by simp
  with assms(3) have e': "e' = Some e" by simp
  from v e' have keep: "c2 = c1" "s7 = s6"
    using create_validate_keeps by blast+
  show ?thesis
    using f res unfolding e' keep
    by (auto simp add: create_finish_error Let_def Snapshot_def RevertToSnapshot_def
        split: if_splits)
qed

text \<open>
  On the concrete machine: a creation with 10 gas whose run leaves 7 cannot pay 400 for two
  bytes of code. Before Homestead the new account and the transfer of 5 stay; with the
  Homestead rules the database is the snapshot and the gas is gone. A reverting creation
  keeps its 997 gas.
\<close>

theorem create_error_handling_witness:
  "create_enters_frame (ex_evm\<lparr>chainRules := ex_frontier\<rparr>) 0xA 5 0x10A ex_db
   \<and> err (create (ex_evm\<lparr>chainRules := ex_frontier\<rparr>) 0xA
        \<lparr>cah_code = [0xF3, 1, 2], cah_hash = 0\<rparr> 10 5 0x10A ex_db) = Some ErrCodeStoreOutOfGas
   \<and> leftOverGas (create (ex_evm\<lparr>chainRules := ex_frontier\<rparr>) 0xA
        \<lparr>cah_code = [0xF3, 1, 2], cah_hash = 0\<rparr> 10 5 0x10A ex_db) = 7
   \<and> Exist (statedb (create (ex_evm\<lparr>chainRules := ex_frontier\<rparr>) 0xA
        \<lparr>cah_code = [0xF3, 1, 2], cah_hash = 0\<rparr> 10 5 0x10A ex_db)) 0x10A
   \<and> GetBalance (statedb (create (ex_evm\<lparr>chainRules := ex_frontier\<rparr>) 0xA
        \<lparr>cah_code = [0xF3, 1, 2], cah_hash = 0\<rparr> 10 5 0x10A ex_db)) 0xA = 95
   \<and> create_enters_frame ex_evm 0xA 5 0x10A ex_db
   \<and> err (create ex_evm 0xA \<lparr>cah_code = [0xF3, 1, 2], cah_hash = 0\<rparr> 10 5 0x10A ex_db)
       = Some ErrCodeStoreOutOfGas
   \<and> leftOverGas (create ex_evm 0xA \<lparr>cah_code = [0xF3, 1, 2], cah_hash = 0\<rparr> 10 5 0x10A ex_db) = 0
   \<and> statedb (create ex_evm 0xA \<lparr>cah_code = [0xF3, 1, 2], cah_hash = 0\<rparr> 10 5 0x10A ex_db)
       = create_prepare ex_evm 0xA 0x10A ex_db
   \<and> \<not> Exist (create_prepare ex_evm 0xA 0x10A ex_db) 0x10A
   \<and> GetBalance (create_prepare ex_evm 0xA 0x10A ex_db) 0xA = 100
   \<and> err (create ex_evm 0xA \<lparr>cah_code = [0xFD, 1, 2], cah_hash = 0\<rparr> 1000 5 0x10A ex_db)
       = Some ErrExecutionReverted
   \<and> leftOverGas (create ex_evm 0xA \<lparr>cah_code = [0xFD, 1, 2], cah_hash = 0\<rparr> 1000 5 0x10A ex_db) = 997
   \<and> statedb (create ex_evm 0xA \<lparr>cah_code = [0xFD, 1, 2], cah_hash = 0\<rparr> 1000 5 0x10A ex_db)
       = create_prepare ex_evm 0xA 0x10A ex_db"
proof -
  let ?F = "ex_evm\<lparr>chainRules := ex_frontier\<rparr>"
  let ?ret = "\<lparr>cah_code = [0xF3, 1, 2], cah_hash = 0\<rparr>"
  let ?rev = "\<lparr>cah_code = [0xFD, 1, 2], cah_hash = 0\<rparr>"
  let ?X = "\<lambda>evm cah gas. interpreter_Run evm (create_contract 0xA 0x10A 5 gas cah) [] False
              (create_setup evm 0xA 0x10A 5 (create_prepare evm 0xA 0x10A ex_db))"
  have X: "?X evm cah gas = (fst (?X evm cah gas), fst (snd (?X evm cah gas)),
             fst (snd (snd (?X evm cah gas))), snd (snd (snd (?X evm cah gas))))" for evm cah gas
    by simp
  have entF: "create_enters_frame ?F 0xA 5 0x10A ex_db"
    by (simp add: ex_defs db_defs frame_defs create_defs Let_def)
  have ent: "create_enters_frame ex_evm 0xA 5 0x10A ex_db"
    by (simp add: ex_defs db_defs frame_defs create_defs Let_def)
  have e1: "err (create ?F 0xA ?ret 10 5 0x10A ex_db) = Some ErrCodeStoreOutOfGas"
    by (simp add: ex_defs db_defs frame_defs create_defs Let_def)
  have e2: "err (create ex_evm 0xA ?ret 10 5 0x10A ex_db) = Some ErrCodeStoreOutOfGas"
    by (simp add: ex_defs db_defs frame_defs create_defs Let_def)
  have e3: "err (create ex_evm 0xA ?rev 1000 5 0x10A ex_db) = Some ErrExecutionReverted"
    by (simp add: ex_defs db_defs frame_defs create_defs Let_def)
  have p: "\<not> Exist (create_prepare ex_evm 0xA 0x10A ex_db) 0x10A
      \<and> GetBalance (create_prepare ex_evm 0xA 0x10A ex_db) 0xA = 100"
    by (simp add: ex_defs db_defs frame_defs create_defs Let_def)
  show ?thesis
    using create_error_handling [OF entF X e1] create_error_handling [OF ent X e2]
      create_error_handling [OF ent X e3]
    by (simp add: ex_defs db_defs frame_defs create_defs Let_def)
qed

text \<open>
  Claim C6. After an interpreter run without error, \<^verbatim>\<open>create\<close> always returns the output
  of the run, and its error is decided in this order: the output is longer than the maximum
  code size under EIP-158; else its first byte is \<open>0xEF\<close> under London; else the frame cannot
  pay the storage charge (64-bit product of the output length and \<^verbatim>\<open>CreateDataGas\<close>, which
  is the product of the numbers as long as that is below \<open>2^64\<close>); else there is no error,
  the charge is deducted and the output is stored as the code of the new address.
\<close>

theorem create_post_run_validation:
  assumes "create_enters_frame evm caller val address s"
    and "interpreter_Run evm (create_contract caller address val gas cah) [] False
           (create_setup evm caller address val (create_prepare evm caller address s))
         = (r, None, c1, s6)"
  shows "(let res = create evm caller cah gas val address s;
              charge = word_of_nat (length r) * CreateDataGas
          in ret res = r
             \<and> err res =
                 (if IsEIP158 (chainRules evm) \<and> length r > MaxCodeSize evm
                  then Some ErrMaxCodeSizeExceeded
                  else if IsLondon (chainRules evm) \<and> length r \<ge> 1 \<and> r ! 0 = 0xEF
                  then Some ErrInvalidCode
                  else if Gas c1 < charge then Some ErrCodeStoreOutOfGas
                  else None)
             \<and> (err res = None \<longrightarrow>
                  leftOverGas res = Gas c1 - charge \<and> statedb res = SetCode s6 address r)
             \<and> (length r * 200 < 2 ^ 64 \<longrightarrow> unat charge = length r * 200))"
proof -
  have charge: "length r * 200 < 2 ^ 64 \<Longrightarrow>
      unat (word_of_nat (length r) * CreateDataGas) = length r * 200"
    by (simp add: CreateDataGas_def unat_word_ariths unat_of_nat take_bit_nat_eq_self)
  show ?thesis
    using create_enters [OF assms] charge
    by (auto simp add: create_validate_ok create_finish_error create_finish_ok Let_def
        split: prod.splits if_splits)
qed

theorem create_post_run_validation_witness:
  "create_enters_frame ex_evm 0xA 5 0x10A ex_db
   \<and> fst (snd (interpreter_Run ex_evm
        (create_contract 0xA 0x10A 5 1000 \<lparr>cah_code = [0xF3, 1, 2], cah_hash = 0\<rparr>) [] False
        (create_setup ex_evm 0xA 0x10A 5 (create_prepare ex_evm 0xA 0x10A ex_db)))) = None
   \<and> ret (create ex_evm 0xA \<lparr>cah_code = [0xF3, 1, 2], cah_hash = 0\<rparr> 1000 5 0x10A ex_db) = [1, 2]
   \<and> err (create ex_evm 0xA \<lparr>cah_code = [0xF3, 1, 2], cah_hash = 0\<rparr> 1000 5 0x10A ex_db) = None
   \<and> leftOverGas (create ex_evm 0xA \<lparr>cah_code = [0xF3, 1, 2], cah_hash = 0\<rparr> 1000 5 0x10A ex_db)
       = 597
   \<and> GetCode (statedb (create ex_evm 0xA \<lparr>cah_code = [0xF3, 1, 2], cah_hash = 0\<rparr> 1000 5 0x10A
        ex_db)) 0x10A = [1, 2]
   \<and> ret (create ex_evm 0xA \<lparr>cah_code = [0xF3, 1, 2], cah_hash = 0\<rparr> 10 5 0x10A ex_db) = [1, 2]
   \<and> err (create ex_evm 0xA \<lparr>cah_code = [0xF3, 1, 2], cah_hash = 0\<rparr> 10 5 0x10A ex_db)
       = Some ErrCodeStoreOutOfGas
   \<and> ret (create ex_evm 0xA \<lparr>cah_code = [0xF3, 0xEF, 2], cah_hash = 0\<rparr> 1000 5 0x10A ex_db)
       = [0xEF, 2]
   \<and> err (create ex_evm 0xA \<lparr>cah_code = [0xF3, 0xEF, 2], cah_hash = 0\<rparr> 1000 5 0x10A ex_db)
       = Some ErrInvalidCode
   \<and> ret (create (ex_evm\<lparr>MaxCodeSize := 1\<rparr>) 0xA \<lparr>cah_code = [0xF3, 0xEF, 2], cah_hash = 0\<rparr>
        1000 5 0x10A ex_db) = [0xEF, 2]
   \<and> err (create (ex_evm\<lparr>MaxCodeSize := 1\<rparr>) 0xA \<lparr>cah_code = [0xF3, 0xEF, 2], cah_hash = 0\<rparr>
        1000 5 0x10A ex_db) = Some ErrMaxCodeSizeExceeded"
proof -
  let ?X = "\<lambda>evm cah gas. interpreter_Run evm (create_contract 0xA 0x10A 5 gas cah) [] False
              (create_setup evm 0xA 0x10A 5 (create_prepare evm 0xA 0x10A ex_db))"
  have X: "fst (snd (?X evm cah gas)) = None \<Longrightarrow>
           ?X evm cah gas = (fst (?X evm cah gas), None,
             fst (snd (snd (?X evm cah gas))), snd (snd (snd (?X evm cah gas))))" for evm cah gas
    by (metis prod.collapse)
  have ent: "create_enters_frame ex_evm 0xA 5 0x10A ex_db"
    by (simp add: ex_defs db_defs frame_defs create_defs Let_def)
  have ent1: "create_enters_frame (ex_evm\<lparr>MaxCodeSize := 1\<rparr>) 0xA 5 0x10A ex_db"
    by (simp add: ex_defs db_defs frame_defs create_defs Let_def)
  have n1: "fst (snd (?X ex_evm \<lparr>cah_code = [0xF3, 1, 2], cah_hash = 0\<rparr> 1000)) = None"
    by (simp add: ex_defs db_defs frame_defs create_defs Let_def)
  have n2: "fst (snd (?X ex_evm \<lparr>cah_code = [0xF3, 1, 2], cah_hash = 0\<rparr> 10)) = None"
    by (simp add: ex_defs db_defs frame_defs create_defs Let_def)
  have n3: "fst (snd (?X ex_evm \<lparr>cah_code = [0xF3, 0xEF, 2], cah_hash = 0\<rparr> 1000)) = None"
    by (simp add: ex_defs db_defs frame_defs create_defs Let_def)
  have n4: "fst (snd (?X (ex_evm\<lparr>MaxCodeSize := 1\<rparr>)
              \<lparr>cah_code = [0xF3, 0xEF, 2], cah_hash = 0\<rparr> 1000)) = None"
    by (simp add: ex_defs db_defs frame_defs create_defs Let_def)
  show ?thesis
    using create_post_run_validation [OF ent X [OF n1]]
      create_post_run_validation [OF ent X [OF n2]]
      create_post_run_validation [OF ent X [OF n3]]
      create_post_run_validation [OF ent1 X [OF n4]]
    by (simp add: ex_defs db_defs frame_defs create_defs Let_def)
qed

subsection \<open>Creation: the nonce of the caller\<close>

lemma no_overflow_less: "\<not> n + 1 < n \<Longrightarrow> n < n + (1 :: uint64)"
  by (metis add_cancel_right_right not_less_iff_gr_or_eq zero_neq_one)

lemma not_collides_distinct:
  assumes "\<not> GetNonce s caller + 1 < GetNonce s caller"
    and "\<not> create_collides evm address (create_prepare evm caller address s)"
  shows "address \<noteq> caller"
  using assms nonce_succ_nonzero [OF assms(1)]
  by (auto simp add: create_collides_def GetNonce_create_prepare Let_def)

lemma GetNonce_CreateAccount_other:
  "a \<noteq> b \<Longrightarrow> GetNonce (CreateAccount s b) a = GetNonce s a"
  by (simp add: GetNonce_def CreateAccount_def)

lemma GetNonce_SetNonce_other:
  "a \<noteq> b \<Longrightarrow> GetNonce (SetNonce s b n) a = GetNonce s a"
  by (simp add: GetNonce_def SetNonce_def)

lemma GetNonce_SetCode: "GetNonce (SetCode s b c) a = GetNonce s a"
  by (simp add: GetNonce_def SetCode_def getOrNew_def emptyAccount_def split: option.split)

lemma create_rolls_back_to_prepare:
  assumes "depth evm \<le> CallCreateDepth" and "CanTransfer evm s caller val"
    and "\<not> GetNonce s caller + 1 < GetNonce s caller"
    and "err (create evm caller cah gas val address s) \<noteq> None"
    and "IsHomestead (chainRules evm)
         \<or> err (create evm caller cah gas val address s) \<noteq> Some ErrCodeStoreOutOfGas"
  shows "statedb (create evm caller cah gas val address s) = create_prepare evm caller address s"
  using assms
  by (auto simp add: create_def create_finish_def Let_def RevertToSnapshot_def Snapshot_def
      split: prod.splits if_splits)

lemma create_nonce_monotone:
  assumes "depth evm \<le> CallCreateDepth" and "CanTransfer evm s caller val"
    and novf: "\<not> GetNonce s caller + 1 < GetNonce s caller"
    and tr: "\<forall>t a b v. GetNonce t caller \<le> GetNonce (Transfer evm t a b v) caller"
    and run: "\<forall>c i ro t.
           GetNonce t caller \<le> GetNonce (snd (snd (snd (interpreter_Run evm c i ro t)))) caller"
  shows "GetNonce s caller + 1 \<le> GetNonce (statedb (create evm caller cah gas val address s)) caller"
proof (cases "create_collides evm address (create_prepare evm caller address s)")
  case True
  with assms(1-3) show ?thesis
    by (simp add: create_def Let_def GetNonce_create_prepare)
next
  case False
  let ?s2 = "create_prepare evm caller address s"
  let ?s5 = "create_setup evm caller address val ?s2"
  let ?c = "create_contract caller address val gas cah"
  from not_collides_distinct [OF novf False] have ne: "caller \<noteq> address" by simp
  obtain r e0 c1 s6 where X: "interpreter_Run evm ?c [] False ?s5 = (r, e0, c1, s6)"
    by (cases "interpreter_Run evm ?c [] False ?s5") auto
  have stp: "GetNonce s caller + 1 \<le> GetNonce ?s5 caller"
  proof -
    have "GetNonce (if IsEIP158 (chainRules evm)
                    then SetNonce (CreateAccount ?s2 address) address 1
                    else CreateAccount ?s2 address) caller = GetNonce s caller + 1"
      using ne by (simp add: GetNonce_SetNonce_other GetNonce_CreateAccount_other
          GetNonce_create_prepare)
    with tr show ?thesis
      by (metis create_setup_def)
  qed
  have "GetNonce ?s5 caller \<le> GetNonce s6 caller"
    using run [rule_format, of ?s5 ?c "[]" False] X by simp
  with stp have s6: "GetNonce s caller + 1 \<le> GetNonce s6 caller" by simp
  have ent: "create_enters_frame evm caller val address s"
    using assms(1-3) False by (simp add: create_enters_frame_def)
  show ?thesis
    using create_enters [OF ent X] s6
    by (auto simp add: create_validate_def create_finish_def UseGas_def Let_def
        RevertToSnapshot_def Snapshot_def GetNonce_SetCode GetNonce_create_prepare
        split: prod.splits if_splits)
qed

text \<open>
  Claim C8. Once \<^verbatim>\<open>create\<close> has passed the depth check, the transfer guard and the
  nonce-overflow check, it increments the caller's nonce and, under Berlin, marks the new
  address as accessed, before anything else. Every failure that is a collision or that
  triggers the rollback returns exactly the database with these two changes, so neither is
  undone. On the paths without rollback (success, and the pre-Homestead code-store failure)
  the later steps of \<^verbatim>\<open>create\<close> itself leave the caller's nonce alone: if the transfer
  function and the interpreter never lower it, the nonce returned is at least the
  incremented one.
\<close>

theorem create_nonce_never_decremented:
  assumes "depth evm \<le> CallCreateDepth" and "CanTransfer evm s caller val"
    and "\<not> GetNonce s caller + 1 < GetNonce s caller"
  shows "(let res = create evm caller cah gas val address s;
              s2 = create_prepare evm caller address s
          in GetNonce s2 caller = GetNonce s caller + 1
             \<and> GetNonce s caller < GetNonce s2 caller
             \<and> (IsBerlin (chainRules evm) \<longrightarrow> address \<in> accessList s2)
             \<and> (err res \<noteq> None
                  \<and> (IsHomestead (chainRules evm) \<or> err res \<noteq> Some ErrCodeStoreOutOfGas)
                \<longrightarrow> statedb res = s2)
             \<and> ((\<forall>t a b v. GetNonce t caller \<le> GetNonce (Transfer evm t a b v) caller)
                  \<and> (\<forall>c i ro t. GetNonce t caller
                        \<le> GetNonce (snd (snd (snd (interpreter_Run evm c i ro t)))) caller)
                \<longrightarrow> GetNonce s caller + 1 \<le> GetNonce (statedb res) caller))"
  using create_rolls_back_to_prepare [OF assms] create_nonce_monotone [OF assms]
    no_overflow_less [OF assms(3)]
  by (simp add: Let_def GetNonce_create_prepare accessList_create_prepare)

text \<open>
  On the concrete machine neither the ledger transfer nor the toy interpreter touches a
  nonce. A faulting creation is rolled back and still leaves the caller's nonce at 1 and
  the new address in the access list.
\<close>

lemma GetNonce_AddBalance: "GetNonce (AddBalance s a v) b = GetNonce s b"
  by (simp add: GetNonce_def AddBalance_def getOrNew_def emptyAccount_def split: option.split)

lemma ex_Transfer_nonce: "GetNonce (ex_Transfer t a b v) c = GetNonce t c"
  by (simp add: ex_Transfer_def GetNonce_AddBalance)

lemma ex_Run_nonce: "GetNonce (snd (snd (snd (ex_Run c i ro t)))) a = GetNonce t a"
  by (simp add: ex_Run_def UseGas_def GetNonce_AddBalance Let_def split: list.split)

theorem create_nonce_never_decremented_witness:
  "depth ex_evm \<le> CallCreateDepth \<and> CanTransfer ex_evm ex_db 0xA 5
   \<and> \<not> GetNonce ex_db 0xA + 1 < GetNonce ex_db 0xA
   \<and> GetNonce ex_db 0xA = 0
   \<and> (\<forall>t a b v. GetNonce t 0xA \<le> GetNonce (Transfer ex_evm t a b v) 0xA)
   \<and> (\<forall>c i ro t. GetNonce t 0xA
         \<le> GetNonce (snd (snd (snd (interpreter_Run ex_evm c i ro t)))) 0xA)
   \<and> err (create ex_evm 0xA \<lparr>cah_code = [0xFE], cah_hash = 0\<rparr> 1000 5 0x10A ex_db)
       = Some (ErrFault ''invalid opcode'')
   \<and> GetNonce (statedb (create ex_evm 0xA \<lparr>cah_code = [0xFE], cah_hash = 0\<rparr> 1000 5 0x10A
        ex_db)) 0xA = 1
   \<and> 0x10A \<in> accessList (statedb (create ex_evm 0xA \<lparr>cah_code = [0xFE], cah_hash = 0\<rparr> 1000 5
        0x10A ex_db))
   \<and> err (create ex_evm 0xA \<lparr>cah_code = [0xF3, 1], cah_hash = 0\<rparr> 1000 5 0x10A ex_db) = None
   \<and> 1 \<le> GetNonce (statedb (create ex_evm 0xA \<lparr>cah_code = [0xF3, 1], cah_hash = 0\<rparr> 1000 5
        0x10A ex_db)) 0xA"
proof -
  have h1: "depth ex_evm \<le> CallCreateDepth"
    by (simp add: ex_evm_def CallCreateDepth_def)
  have h2: "CanTransfer ex_evm ex_db 0xA 5"
    by (simp add: ex_defs db_defs)
  have h3: "\<not> GetNonce ex_db 0xA + 1 < GetNonce ex_db 0xA"
    by (simp add: ex_defs db_defs)
  have tr: "\<forall>t a b v. GetNonce t 0xA \<le> GetNonce (Transfer ex_evm t a b v) 0xA"
    by (simp add: ex_evm_def ex_Transfer_nonce)
  have run: "\<forall>c i ro t. GetNonce t 0xA
         \<le> GetNonce (snd (snd (snd (interpreter_Run ex_evm c i ro t)))) 0xA"
    by (simp add: ex_evm_def ex_Run_nonce)
  have e1: "err (create ex_evm 0xA \<lparr>cah_code = [0xFE], cah_hash = 0\<rparr> 1000 5 0x10A ex_db)
       = Some (ErrFault ''invalid opcode'')"
    by (simp add: ex_defs db_defs frame_defs create_defs Let_def)
  have e2: "err (create ex_evm 0xA \<lparr>cah_code = [0xF3, 1], cah_hash = 0\<rparr> 1000 5 0x10A ex_db) = None"
    by (simp add: ex_defs db_defs frame_defs create_defs Let_def)
  have n0: "GetNonce ex_db 0xA = 0"
    by (simp add: ex_defs db_defs)
  have ber: "IsBerlin (chainRules ex_evm)" "IsHomestead (chainRules ex_evm)"
    by (simp_all add: ex_evm_def ex_rules_def)
  show ?thesis
    using create_nonce_never_decremented
            [OF h1 h2 h3, of "\<lparr>cah_code = [0xFE], cah_hash = 0\<rparr>" 1000 "0x10A"]
      create_nonce_never_decremented
            [OF h1 h2 h3, of "\<lparr>cah_code = [0xF3, 1], cah_hash = 0\<rparr>" 1000 "0x10A"]
      h1 h2 h3 tr run e1 e2 n0 ber
    by (simp add: Let_def)
qed

subsection \<open>The transfer guard\<close>

lemma precompile_guard: "precompile (evm\<lparr>CanTransfer := guard\<rparr>) addr = precompile evm addr"
  by (simp add: precompile_def)

lemma runFrame_guard:
  "runFrame (evm\<lparr>CanTransfer := guard\<rparr>) c input ro s = runFrame evm c input ro s"
  by (simp add: runFrame_def)

lemma Call_dispatch_guard:
  "Call_dispatch (evm\<lparr>CanTransfer := guard\<rparr>) caller addr input gas val s
     = Call_dispatch evm caller addr input gas val s"
  by (simp add: Call_dispatch_def precompile_guard runFrame_guard Let_def split: option.split)

lemma Call_setup_guard:
  "Call_setup (evm\<lparr>CanTransfer := guard\<rparr>) caller addr val s = Call_setup evm caller addr val s"
  by (simp add: Call_setup_def)

lemma Call_zero_value_guard:
  "Call (evm\<lparr>CanTransfer := guard\<rparr>) caller addr input gas 0 s
     = Call evm caller addr input gas 0 s"
  by (simp add: Call_def Call_dispatch_guard Call_setup_guard precompile_guard)

text \<open>
  Claim C9, as amended. Past the depth check, \<^verbatim>\<open>CallCode\<close> consults the transfer guard
  whatever the value, also zero, and fails with \<^verbatim>\<open>ErrInsufficientBalance\<close> (gas and database
  unchanged) when the guard declines. \<^verbatim>\<open>Call\<close>, past the depth check, fails so when the
  value is non-zero and the guard declines; with value zero it does not consult the guard
  at all: its result is the same whatever guard is installed.
\<close>

theorem transfer_guard_CallCode_and_Call:
  "(depth evm \<le> CallCreateDepth \<and> \<not> CanTransfer evm s caller val \<longrightarrow>
      CallCode evm caller addr input gas val s
        = \<lparr>ret = [], leftOverGas = gas, err = Some ErrInsufficientBalance, statedb = s\<rparr>)
   \<and> (depth evm \<le> CallCreateDepth \<and> val \<noteq> 0 \<and> \<not> CanTransfer evm s caller val \<longrightarrow>
      Call evm caller addr input gas val s
        = \<lparr>ret = [], leftOverGas = gas, err = Some ErrInsufficientBalance, statedb = s\<rparr>)
   \<and> Call (evm\<lparr>CanTransfer := guard\<rparr>) caller addr input gas 0 s
        = Call evm caller addr input gas 0 s"
proof (intro conjI impI)
  assume "depth evm \<le> CallCreateDepth \<and> \<not> CanTransfer evm s caller val"
  then show "CallCode evm caller addr input gas val s
      = \<lparr>ret = [], leftOverGas = gas, err = Some ErrInsufficientBalance, statedb = s\<rparr>"
    by (simp add: CallCode_def)
next
  assume "depth evm \<le> CallCreateDepth \<and> val \<noteq> 0 \<and> \<not> CanTransfer evm s caller val"
  then show "Call evm caller addr input gas val s
      = \<lparr>ret = [], leftOverGas = gas, err = Some ErrInsufficientBalance, statedb = s\<rparr>"
    by (simp add: Call_def)
next
  show "Call (evm\<lparr>CanTransfer := guard\<rparr>) caller addr input gas 0 s
      = Call evm caller addr input gas 0 s"
    by (rule Call_zero_value_guard)
qed


theorem transfer_guard_CallCode_and_Call_witness:
  "depth (ex_evm\<lparr>CanTransfer := \<lambda>s a v. False\<rparr>) \<le> CallCreateDepth
   \<and> \<not> CanTransfer (ex_evm\<lparr>CanTransfer := \<lambda>s a v. False\<rparr>) ex_db 0xA 0
   \<and> err (CallCode (ex_evm\<lparr>CanTransfer := \<lambda>s a v. False\<rparr>) 0xA 0xD [] 1000 0 ex_db)
       = Some ErrInsufficientBalance
   \<and> leftOverGas (CallCode (ex_evm\<lparr>CanTransfer := \<lambda>s a v. False\<rparr>) 0xA 0xD [] 1000 0 ex_db)
       = 1000
   \<and> err (Call (ex_evm\<lparr>CanTransfer := \<lambda>s a v. False\<rparr>) 0xA 0xD [] 1000 0 ex_db) = None
   \<and> ret (Call (ex_evm\<lparr>CanTransfer := \<lambda>s a v. False\<rparr>) 0xA 0xD [] 1000 0 ex_db) = [1, 2]
   \<and> \<not> CanTransfer ex_evm ex_db 0xA 500
   \<and> err (Call ex_evm 0xA 0xD [] 1000 500 ex_db) = Some ErrInsufficientBalance
   \<and> err (CallCode ex_evm 0xA 0xD [] 1000 500 ex_db) = Some ErrInsufficientBalance"
proof -
  have a: "depth (ex_evm\<lparr>CanTransfer := \<lambda>s a v. False\<rparr>) \<le> CallCreateDepth
      \<and> \<not> CanTransfer (ex_evm\<lparr>CanTransfer := \<lambda>s a v. False\<rparr>) ex_db 0xA 0"
    by (simp add: ex_evm_def CallCreateDepth_def)
  have b: "depth ex_evm \<le> CallCreateDepth \<and> (500::int) \<noteq> 0 \<and> \<not> CanTransfer ex_evm ex_db 0xA 500"
    by (simp add: ex_defs db_defs CallCreateDepth_def)
  have c: "err (Call ex_evm 0xA 0xD [] 1000 0 ex_db) = None
      \<and> ret (Call ex_evm 0xA 0xD [] 1000 0 ex_db) = [1, 2]"
    by (simp add: ex_defs db_defs frame_defs call_defs Let_def)
  show ?thesis
    using transfer_guard_CallCode_and_Call
            [of "ex_evm\<lparr>CanTransfer := \<lambda>s a v. False\<rparr>" ex_db "0xA" 0 "0xD" "[]" 1000
               ex_CanTransfer]
      transfer_guard_CallCode_and_Call [of ex_evm ex_db "0xA" 500 "0xD" "[]" 1000 ex_CanTransfer]
      a b c
    by (simp add: ex_evm_def)
qed

text \<open>
  Claim C9 as stated has \<^verbatim>\<open>CallCode\<close> fail with \<^verbatim>\<open>ErrInsufficientBalance\<close> on every call that
  the guard declines. Above the depth limit the depth check returns first.
\<close>

theorem transfer_guard_depth_counterexample:
  "\<not> CanTransfer (ex_evm\<lparr>depth := 1025\<rparr>) ex_db 0xA 500
   \<and> err (CallCode (ex_evm\<lparr>depth := 1025\<rparr>) 0xA 0xD [] 1000 500 ex_db) = Some ErrDepth
   \<and> err (CallCode (ex_evm\<lparr>depth := 1025\<rparr>) 0xA 0xD [] 1000 500 ex_db)
       \<noteq> Some ErrInsufficientBalance"
  by (simp add: ex_defs db_defs frame_defs call_defs Let_def)

subsection \<open>The touch of a static call\<close>

text \<open>
  Claim C10. \<^verbatim>\<open>StaticCall\<close>, past the depth check, takes its snapshot of the database it is
  entered with and only then adds a zero balance to the target, which materialises the
  account. The dispatch starts from the touched database. If it returns an error, the
  database is reverted to the snapshot, the database before the touch; if it returns none,
  the database it left is returned, which for a precompile is exactly the touched one.
\<close>

theorem static_call_touch:
  "depth evm \<le> CallCreateDepth \<Longrightarrow>
   (let touched = AddBalance s addr 0;
        d = StaticCall_dispatch evm caller addr input gas touched;
        r = StaticCall evm caller addr input gas s
    in Exist touched addr
       \<and> statedb r = (if err d = None then statedb d else RevertToSnapshot (statedb d) (Snapshot s))
       \<and> RevertToSnapshot (statedb d) (Snapshot s) = s
       \<and> (precompile evm addr \<noteq> None \<longrightarrow> statedb d = touched))"
  by (auto simp add: StaticCall_enters revertOnError_def Let_def RevertToSnapshot_def
      Snapshot_def Exist_def AddBalance_def StaticCall_dispatch_def runPrecompile_def
      split: prod.splits)

theorem static_call_touch_witness:
  "depth ex_evm \<le> CallCreateDepth
   \<and> \<not> Exist ex_db 4
   \<and> precompile ex_evm 4 \<noteq> None
   \<and> err (StaticCall ex_evm 0xA 4 [9] 10 ex_db) = Some (ErrFault ''out of gas'')
   \<and> statedb (StaticCall ex_evm 0xA 4 [9] 10 ex_db) = ex_db
   \<and> \<not> Exist (statedb (StaticCall ex_evm 0xA 4 [9] 10 ex_db)) 4
   \<and> err (StaticCall ex_evm 0xA 4 [9] 100 ex_db) = None
   \<and> statedb (StaticCall ex_evm 0xA 4 [9] 100 ex_db) = AddBalance ex_db 4 0
   \<and> Exist (statedb (StaticCall ex_evm 0xA 4 [9] 100 ex_db)) 4"
  using static_call_touch [of ex_evm ex_db 4 "0xA" "[9]" 10]
    static_call_touch [of ex_evm ex_db 4 "0xA" "[9]" 100]
  by (simp add: ex_defs db_defs frame_defs call_defs Let_def)

subsection \<open>Gas conservation\<close>

lemma call_gas_rule_revertOnError:
  "leftOverGas d \<le> gas \<Longrightarrow>
   call_gas_rule None gas (leftOverGas (revertOnError snap d)) (err (revertOnError snap d))"
  by (auto simp add: call_gas_rule_def revertOnError_def)

lemma leftOverGas_runFrame:
  assumes "\<forall>c i ro t. Gas (fst (snd (snd (interpreter_Run evm c i ro t)))) \<le> Gas c"
  shows "leftOverGas (runFrame evm c input ro s) \<le> Gas c"
  using assms [rule_format, of c input ro s]
  by (auto simp add: runFrame_def split: prod.splits)

lemma leftOverGas_runPrecompile:
  assumes "\<forall>a p i g. precompile evm a = Some p
             \<longrightarrow> fst (snd (RunPrecompiledContract p i g)) \<le> g"
    and "precompile evm addr = Some p"
  shows "leftOverGas (runPrecompile p input gas s) \<le> gas"
  using assms(1) [rule_format, OF assms(2), of input gas]
  by (auto simp add: runPrecompile_def split: prod.splits)

lemma Gas_frame [simp]:
  "Gas (SetCallCode (NewContract a b v gas) addr h code) = gas"
  "Gas (SetCallCode (AsDelegate parent (NewContract a b v gas)) addr h code) = gas"
  "Gas (create_contract a b w gas cah) = gas"
  by (simp_all add: SetCallCode_def NewContract_def AsDelegate_def create_contract_def
      SetCodeOptionalHash_def)

lemma Call_dispatch_gas:
  assumes "\<forall>c i ro t. Gas (fst (snd (snd (interpreter_Run evm c i ro t)))) \<le> Gas c"
    and "\<forall>a p i g. precompile evm a = Some p
             \<longrightarrow> fst (snd (RunPrecompiledContract p i g)) \<le> g"
  shows "leftOverGas (Call_dispatch evm caller addr input gas val s) \<le> gas"
proof (cases "precompile evm addr")
  case None
  then show ?thesis
    using leftOverGas_runFrame [OF assms(1), of
        "SetCallCode (NewContract caller addr (Some val) gas) addr
           (GetCodeHash (Keccak256Hash evm) s addr) (GetCode s addr)" input False s]
    by (simp add: Call_dispatch_def Let_def)
next
  case (Some p)
  then show ?thesis
    using leftOverGas_runPrecompile [OF assms(2) Some] by (simp add: Call_dispatch_def)
qed

lemma CallCode_dispatch_gas:
  assumes "\<forall>c i ro t. Gas (fst (snd (snd (interpreter_Run evm c i ro t)))) \<le> Gas c"
    and "\<forall>a p i g. precompile evm a = Some p
             \<longrightarrow> fst (snd (RunPrecompiledContract p i g)) \<le> g"
  shows "leftOverGas (CallCode_dispatch evm caller addr input gas val s) \<le> gas"
proof (cases "precompile evm addr")
  case None
  then show ?thesis
    using leftOverGas_runFrame [OF assms(1), of
        "SetCallCode (NewContract caller caller (Some val) gas) addr
           (GetCodeHash (Keccak256Hash evm) s addr) (GetCode s addr)" input False s]
    by (simp add: CallCode_dispatch_def Let_def)
next
  case (Some p)
  then show ?thesis
    using leftOverGas_runPrecompile [OF assms(2) Some] by (simp add: CallCode_dispatch_def)
qed

lemma DelegateCall_dispatch_gas:
  assumes "\<forall>c i ro t. Gas (fst (snd (snd (interpreter_Run evm c i ro t)))) \<le> Gas c"
    and "\<forall>a p i g. precompile evm a = Some p
             \<longrightarrow> fst (snd (RunPrecompiledContract p i g)) \<le> g"
  shows "leftOverGas (DelegateCall_dispatch evm parent addr input gas s) \<le> gas"
proof (cases "precompile evm addr")
  case None
  then show ?thesis
    using leftOverGas_runFrame [OF assms(1), of
        "SetCallCode (AsDelegate parent (NewContract (self parent) (self parent) None gas)) addr
           (GetCodeHash (Keccak256Hash evm) s addr) (GetCode s addr)" input False s]
    by (simp add: DelegateCall_dispatch_def Let_def)
next
  case (Some p)
  then show ?thesis
    using leftOverGas_runPrecompile [OF assms(2) Some] by (simp add: DelegateCall_dispatch_def)
qed

lemma StaticCall_dispatch_gas:
  assumes "\<forall>c i ro t. Gas (fst (snd (snd (interpreter_Run evm c i ro t)))) \<le> Gas c"
    and "\<forall>a p i g. precompile evm a = Some p
             \<longrightarrow> fst (snd (RunPrecompiledContract p i g)) \<le> g"
  shows "leftOverGas (StaticCall_dispatch evm caller addr input gas s) \<le> gas"
proof (cases "precompile evm addr")
  case None
  then show ?thesis
    using leftOverGas_runFrame [OF assms(1), of
        "SetCallCode (NewContract caller addr (Some 0) gas) addr
           (GetCodeHash (Keccak256Hash evm) s addr) (GetCode s addr)" input True s]
    by (simp add: StaticCall_dispatch_def Let_def)
next
  case (Some p)
  then show ?thesis
    using leftOverGas_runPrecompile [OF assms(2) Some] by (simp add: StaticCall_dispatch_def)
qed

lemma Call_gas:
  assumes "\<forall>c i ro t. Gas (fst (snd (snd (interpreter_Run evm c i ro t)))) \<le> Gas c"
    and "\<forall>a p i g. precompile evm a = Some p
             \<longrightarrow> fst (snd (RunPrecompiledContract p i g)) \<le> g"
  shows "call_gas_rule (Call_rejected evm caller val s) gas
           (leftOverGas (Call evm caller addr input gas val s))
           (err (Call evm caller addr input gas val s))"
proof (cases "Call_enters_frame evm caller addr val s")
  case True
  then have "Call_rejected evm caller val s = None"
    by (auto simp add: Call_rejected_def Call_enters_frame_def)
  then show ?thesis
    using call_gas_rule_revertOnError [OF Call_dispatch_gas [OF assms]] True
    by (simp add: Call_enters)
next
  case False
  then show ?thesis
    by (auto simp add: Call_def Call_enters_frame_def Call_rejected_def call_gas_rule_def
        Let_def)
qed

lemma CallCode_gas:
  assumes "\<forall>c i ro t. Gas (fst (snd (snd (interpreter_Run evm c i ro t)))) \<le> Gas c"
    and "\<forall>a p i g. precompile evm a = Some p
             \<longrightarrow> fst (snd (RunPrecompiledContract p i g)) \<le> g"
  shows "call_gas_rule (CallCode_rejected evm caller val s) gas
           (leftOverGas (CallCode evm caller addr input gas val s))
           (err (CallCode evm caller addr input gas val s))"
  using call_gas_rule_revertOnError [OF CallCode_dispatch_gas [OF assms]]
  by (simp add: CallCode_def CallCode_rejected_def Let_def call_gas_rule_def)

lemma DelegateCall_gas:
  assumes "\<forall>c i ro t. Gas (fst (snd (snd (interpreter_Run evm c i ro t)))) \<le> Gas c"
    and "\<forall>a p i g. precompile evm a = Some p
             \<longrightarrow> fst (snd (RunPrecompiledContract p i g)) \<le> g"
  shows "call_gas_rule (depth_rejected evm) gas
           (leftOverGas (DelegateCall evm parent addr input gas s))
           (err (DelegateCall evm parent addr input gas s))"
  using call_gas_rule_revertOnError [OF DelegateCall_dispatch_gas [OF assms]]
  by (simp add: DelegateCall_def depth_rejected_def Let_def call_gas_rule_def)

lemma StaticCall_gas:
  assumes "\<forall>c i ro t. Gas (fst (snd (snd (interpreter_Run evm c i ro t)))) \<le> Gas c"
    and "\<forall>a p i g. precompile evm a = Some p
             \<longrightarrow> fst (snd (RunPrecompiledContract p i g)) \<le> g"
  shows "call_gas_rule (depth_rejected evm) gas
           (leftOverGas (StaticCall evm caller addr input gas s))
           (err (StaticCall evm caller addr input gas s))"
  using call_gas_rule_revertOnError [OF StaticCall_dispatch_gas [OF assms]]
  by (simp add: StaticCall_def depth_rejected_def Let_def call_gas_rule_def)

lemma word_sub_le_self: "\<not> (g :: uint64) < c \<Longrightarrow> g - c \<le> g"
  by (simp add: word_sub_le)

lemma create_gas:
  assumes run: "\<forall>c i ro t. Gas (fst (snd (snd (interpreter_Run evm c i ro t)))) \<le> Gas c"
  shows "create_gas_rule (create_rejected evm caller val s) (\<not> IsHomestead (chainRules evm))
           (create_run_gas evm caller cah gas val address s) gas
           (leftOverGas (create evm caller cah gas val address s))
           (err (create evm caller cah gas val address s))"
proof (cases "create_enters_frame evm caller val address s")
  case False
  then show ?thesis
    by (auto simp add: create_def create_enters_frame_def create_rejected_def
        create_gas_rule_def Let_def)
next
  case True
  let ?c = "create_contract caller address val gas cah"
  let ?s5 = "create_setup evm caller address val (create_prepare evm caller address s)"
  obtain r e0 c1 s6 where X: "interpreter_Run evm ?c [] False ?s5 = (r, e0, c1, s6)"
    by (cases "interpreter_Run evm ?c [] False ?s5") auto
  have g: "Gas c1 \<le> gas"
    using run [rule_format, of ?c "[]" False ?s5] X by simp
  have rg: "create_run_gas evm caller cah gas val address s = Gas c1"
    using X by (simp add: create_run_gas_def)
  have rej: "create_rejected evm caller val s = None"
    using True by (simp add: create_rejected_def create_enters_frame_def)
  show ?thesis
  proof (cases e0)
    case (Some e)
    then show ?thesis
      using create_enters [OF True X] g
      by (simp add: rg rej create_validate_error create_finish_error create_gas_rule_def)
  next
    case None
    have "Gas c1 - w \<le> gas" if "\<not> Gas c1 < w" for w
      using word_sub_le_self [OF that] g by simp
    then show ?thesis
      using create_enters [OF True X] g None
      by (simp add: rg rej create_validate_ok create_finish_error create_finish_ok
          create_gas_rule_def)
  qed
qed

text \<open>
  Claim C7, as amended. Provided that the interpreter never leaves a frame more gas than it
  had and that no precompiled contract returns more gas than it was supplied, every call
  and create variant returns leftover gas no greater than the gas it was given. A frame
  turned away by its first checks returns their error (\<^verbatim>\<open>ErrDepth\<close>,
  \<^verbatim>\<open>ErrInsufficientBalance\<close>, \<^verbatim>\<open>ErrNonceUintOverflow\<close>) and exactly the gas it was given. A
  creation that ends with \<^verbatim>\<open>ErrCodeStoreOutOfGas\<close> when Homestead is not active returns
  exactly the gas that the run left. In every other case an error other than
  \<^verbatim>\<open>ErrExecutionReverted\<close> comes with leftover gas zero.
\<close>

theorem gas_conservation:
  assumes "\<forall>c i ro t. Gas (fst (snd (snd (interpreter_Run evm c i ro t)))) \<le> Gas c"
    and "\<forall>a p i g. precompile evm a = Some p
             \<longrightarrow> fst (snd (RunPrecompiledContract p i g)) \<le> g"
  shows "call_gas_rule (Call_rejected evm caller val s) gas
           (leftOverGas (Call evm caller addr input gas val s))
           (err (Call evm caller addr input gas val s))
       \<and> call_gas_rule (CallCode_rejected evm caller val s) gas
           (leftOverGas (CallCode evm caller addr input gas val s))
           (err (CallCode evm caller addr input gas val s))
       \<and> call_gas_rule (depth_rejected evm) gas
           (leftOverGas (DelegateCall evm parent addr input gas s))
           (err (DelegateCall evm parent addr input gas s))
       \<and> call_gas_rule (depth_rejected evm) gas
           (leftOverGas (StaticCall evm caller addr input gas s))
           (err (StaticCall evm caller addr input gas s))
       \<and> create_gas_rule (create_rejected evm caller val s) (\<not> IsHomestead (chainRules evm))
           (create_run_gas evm caller cah gas val address s) gas
           (leftOverGas (create evm caller cah gas val address s))
           (err (create evm caller cah gas val address s))
       \<and> create_gas_rule (create_rejected evm caller val s) (\<not> IsHomestead (chainRules evm))
           (create_run_gas evm caller \<lparr>cah_code = code, cah_hash = 0\<rparr> gas val
              (CreateAddress evm caller (GetNonce s caller)) s) gas
           (leftOverGas (Create evm caller code gas val s))
           (err (Create evm caller code gas val s))
       \<and> create_gas_rule (create_rejected evm caller val s) (\<not> IsHomestead (chainRules evm))
           (create_run_gas evm caller
              (snd (Hash (Keccak256Hash evm) \<lparr>cah_code = code, cah_hash = 0\<rparr>)) gas val
              (CreateAddress2 evm caller salt
                 (fst (Hash (Keccak256Hash evm) \<lparr>cah_code = code, cah_hash = 0\<rparr>))) s) gas
           (leftOverGas (Create2 evm caller code gas val salt s))
           (err (Create2 evm caller code gas val salt s))"
  using Call_gas [OF assms] CallCode_gas [OF assms] DelegateCall_gas [OF assms]
    StaticCall_gas [OF assms] create_gas [OF assms(1)]
  by (simp add: Create_def Create2_def Let_def split: prod.splits)

text \<open>
  The rule is exact where the claim is: a rejected frame that lost its gas, a pre-Homestead
  code-store failure that lost the gas of the run, and a fault that kept some gas all
  violate it.
\<close>

lemma gas_rules_exact:
  "\<not> call_gas_rule (Some ErrDepth) 1000 0 (Some ErrDepth)
   \<and> \<not> create_gas_rule (Some ErrNonceUintOverflow) False 0 1000 0 (Some ErrNonceUintOverflow)
   \<and> \<not> create_gas_rule None True 7 10 0 (Some ErrCodeStoreOutOfGas)
   \<and> \<not> call_gas_rule None 1000 5 (Some (ErrFault ''invalid opcode''))
   \<and> \<not> call_gas_rule None 1000 1001 None"
  by (simp add: call_gas_rule_def create_gas_rule_def)

lemma ex_Run_gas: "Gas (fst (snd (snd (ex_Run c i ro t)))) \<le> Gas c"
  by (simp add: ex_Run_def UseGas_def Let_def word_sub_le_self split: list.split)

lemma ex_dataCopy_gas: "fst (snd (RunPrecompiledContract ex_dataCopy i g)) \<le> g"
  by (simp add: ex_dataCopy_def RunPrecompiledContract_def word_sub_le_self)

lemma ex_precompile_table:
  "precompile (ex_evm\<lparr>chainRules := r, depth := d\<rparr>) a = ex_precompiles a"
  by (simp add: precompile_def ex_evm_def)

lemma ex_precompiles_gas:
  "precompile (ex_evm\<lparr>chainRules := r, depth := d\<rparr>) a = Some p \<Longrightarrow>
   fst (snd (RunPrecompiledContract p i g)) \<le> g"
  using ex_dataCopy_gas
  by (auto simp add: ex_precompile_table ex_precompiles_def split: if_splits)

text \<open>
  On the concrete machine, whose interpreter and precompile only consume gas: a faulting
  call returns no gas, a reverting one its 997 of 1000, a call that the depth check or the
  transfer guard rejects its 1000, a successful creation 797; and before Homestead a
  creation that cannot pay for its code returns the 7 that the run left of 10.
\<close>

theorem gas_conservation_witness:
  "(\<forall>c i ro t. Gas (fst (snd (snd (interpreter_Run ex_evm c i ro t)))) \<le> Gas c)
   \<and> (\<forall>a. precompile ex_evm a = ex_precompiles a)
   \<and> dom ex_precompiles = {4} \<and> ex_precompiles 4 = Some ex_dataCopy
   \<and> (\<forall>i g. fst (snd (RunPrecompiledContract ex_dataCopy i g)) \<le> g)
   \<and> Call_rejected ex_evm 0xA 0 ex_db = None
   \<and> err (Call ex_evm 0xA 0xC [] 1000 0 ex_db) = Some (ErrFault ''invalid opcode'')
   \<and> leftOverGas (Call ex_evm 0xA 0xC [] 1000 0 ex_db) = 0
   \<and> err (StaticCall ex_evm 0xA 0xC [] 1000 ex_db) = Some (ErrFault ''invalid opcode'')
   \<and> leftOverGas (StaticCall ex_evm 0xA 0xC [] 1000 ex_db) = 0
   \<and> err (DelegateCall ex_evm ex_frame 0xB [] 1000 ex_db) = Some ErrExecutionReverted
   \<and> leftOverGas (DelegateCall ex_evm ex_frame 0xB [] 1000 ex_db) = 997
   \<and> Call_rejected ex_evm 0xA 500 ex_db = Some ErrInsufficientBalance
   \<and> err (Call ex_evm 0xA 0xC [] 1000 500 ex_db) = Some ErrInsufficientBalance
   \<and> leftOverGas (Call ex_evm 0xA 0xC [] 1000 500 ex_db) = 1000
   \<and> depth_rejected (ex_evm\<lparr>chainRules := ex_rules, depth := 1025\<rparr>) = Some ErrDepth
   \<and> err (StaticCall (ex_evm\<lparr>chainRules := ex_rules, depth := 1025\<rparr>) 0xA 0xC [] 1000 ex_db)
       = Some ErrDepth
   \<and> leftOverGas (StaticCall (ex_evm\<lparr>chainRules := ex_rules, depth := 1025\<rparr>) 0xA 0xC []
        1000 ex_db) = 1000
   \<and> create_rejected ex_evm 0xA 5 ex_db = None
   \<and> err (Create ex_evm 0xA [0xF3, 1] 1000 5 ex_db) = None
   \<and> leftOverGas (Create ex_evm 0xA [0xF3, 1] 1000 5 ex_db) = 797
   \<and> \<not> IsHomestead (chainRules (ex_evm\<lparr>chainRules := ex_frontier, depth := 0\<rparr>))
   \<and> create_run_gas (ex_evm\<lparr>chainRules := ex_frontier, depth := 0\<rparr>) 0xA
        \<lparr>cah_code = [0xF3, 1, 2], cah_hash = 0\<rparr> 10 5 0x10A ex_db = 7
   \<and> err (create (ex_evm\<lparr>chainRules := ex_frontier, depth := 0\<rparr>) 0xA
        \<lparr>cah_code = [0xF3, 1, 2], cah_hash = 0\<rparr> 10 5 0x10A ex_db) = Some ErrCodeStoreOutOfGas
   \<and> leftOverGas (create (ex_evm\<lparr>chainRules := ex_frontier, depth := 0\<rparr>) 0xA
        \<lparr>cah_code = [0xF3, 1, 2], cah_hash = 0\<rparr> 10 5 0x10A ex_db) = 7"
proof -
  have run: "\<forall>c i ro t.
      Gas (fst (snd (snd (interpreter_Run (ex_evm\<lparr>chainRules := r, depth := d\<rparr>) c i ro t))))
        \<le> Gas c" for r d
    by (simp add: ex_evm_def ex_Run_gas)
  have pre: "\<forall>a p i g. precompile (ex_evm\<lparr>chainRules := r, depth := d\<rparr>) a = Some p
      \<longrightarrow> fst (snd (RunPrecompiledContract p i g)) \<le> g" for r d
    using ex_precompiles_gas by blast
  have same: "ex_evm\<lparr>chainRules := ex_rules, depth := 0\<rparr> = ex_evm"
    by (simp add: ex_evm_def)
  have tab: "(\<forall>a. precompile ex_evm a = ex_precompiles a)
      \<and> dom ex_precompiles = {4} \<and> ex_precompiles 4 = Some ex_dataCopy"
    using ex_precompile_table [where r = ex_rules and d = 0] by (simp add: same ex_precompiles_def)
  have copy: "\<forall>i g. fst (snd (RunPrecompiledContract ex_dataCopy i g)) \<le> g"
    by (simp add: ex_dataCopy_gas)
  have run0: "\<forall>c i ro t. Gas (fst (snd (snd (interpreter_Run ex_evm c i ro t)))) \<le> Gas c"
    using run [where r = ex_rules and d = 0] by (simp add: same)
  have pre0: "\<forall>a p i g. precompile ex_evm a = Some p
      \<longrightarrow> fst (snd (RunPrecompiledContract p i g)) \<le> g"
    using pre [where r = ex_rules and d = 0] by (simp add: same)
  have a: "Call_rejected ex_evm 0xA 0 ex_db = None
      \<and> Call_rejected ex_evm 0xA 500 ex_db = Some ErrInsufficientBalance
      \<and> depth_rejected (ex_evm\<lparr>chainRules := ex_rules, depth := 1025\<rparr>) = Some ErrDepth
      \<and> create_rejected ex_evm 0xA 5 ex_db = None
      \<and> create_rejected (ex_evm\<lparr>chainRules := ex_frontier, depth := 0\<rparr>) 0xA 5 ex_db = None
      \<and> \<not> IsHomestead (chainRules (ex_evm\<lparr>chainRules := ex_frontier, depth := 0\<rparr>))"
    by (simp add: Call_rejected_def depth_rejected_def create_rejected_def ex_defs db_defs
        CallCreateDepth_def)
  have b: "err (Call ex_evm 0xA 0xC [] 1000 0 ex_db) = Some (ErrFault ''invalid opcode'')
      \<and> err (StaticCall ex_evm 0xA 0xC [] 1000 ex_db) = Some (ErrFault ''invalid opcode'')
      \<and> err (DelegateCall ex_evm ex_frame 0xB [] 1000 ex_db) = Some ErrExecutionReverted
      \<and> leftOverGas (DelegateCall ex_evm ex_frame 0xB [] 1000 ex_db) = 997
      \<and> err (Create ex_evm 0xA [0xF3, 1] 1000 5 ex_db) = None
      \<and> leftOverGas (Create ex_evm 0xA [0xF3, 1] 1000 5 ex_db) = 797"
    by (simp add: ex_defs db_defs frame_defs call_defs create_defs Let_def)
  have c: "create_run_gas (ex_evm\<lparr>chainRules := ex_frontier, depth := 0\<rparr>) 0xA
        \<lparr>cah_code = [0xF3, 1, 2], cah_hash = 0\<rparr> 10 5 0x10A ex_db = 7
      \<and> err (create (ex_evm\<lparr>chainRules := ex_frontier, depth := 0\<rparr>) 0xA
        \<lparr>cah_code = [0xF3, 1, 2], cah_hash = 0\<rparr> 10 5 0x10A ex_db) = Some ErrCodeStoreOutOfGas"
    by (simp add: create_run_gas_def ex_defs db_defs frame_defs create_defs Let_def)
  have a0: "depth_rejected ex_evm = None"
    by (simp add: depth_rejected_def ex_evm_def CallCreateDepth_def)
  have k1: "leftOverGas (Call ex_evm 0xA 0xC [] 1000 0 ex_db) = 0"
    using gas_conservation [OF run0 pre0, where gas = 1000 and caller = "0xA" and addr = "0xC"
        and input = "[]" and val = 0 and s = ex_db, THEN conjunct1] a b
    by (simp add: call_gas_rule_def)
  have k2: "leftOverGas (StaticCall ex_evm 0xA 0xC [] 1000 ex_db) = 0"
    using gas_conservation [OF run0 pre0, where gas = 1000 and caller = "0xA" and addr = "0xC"
        and input = "[]" and s = ex_db,
        THEN conjunct2, THEN conjunct2, THEN conjunct2, THEN conjunct1] a0 b
    by (simp add: call_gas_rule_def)
  have k3: "err (Call ex_evm 0xA 0xC [] 1000 500 ex_db) = Some ErrInsufficientBalance
      \<and> leftOverGas (Call ex_evm 0xA 0xC [] 1000 500 ex_db) = 1000"
    using gas_conservation [OF run0 pre0, where gas = 1000 and caller = "0xA" and addr = "0xC"
        and input = "[]" and val = 500 and s = ex_db, THEN conjunct1] a
    by (simp add: call_gas_rule_def)
  have k4: "err (StaticCall (ex_evm\<lparr>chainRules := ex_rules, depth := 1025\<rparr>) 0xA 0xC [] 1000
        ex_db) = Some ErrDepth
      \<and> leftOverGas (StaticCall (ex_evm\<lparr>chainRules := ex_rules, depth := 1025\<rparr>) 0xA 0xC []
        1000 ex_db) = 1000"
    using gas_conservation [OF run [where r = ex_rules and d = 1025]
        pre [where r = ex_rules and d = 1025], where gas = 1000 and caller = "0xA"
        and addr = "0xC" and input = "[]" and s = ex_db,
        THEN conjunct2, THEN conjunct2, THEN conjunct2, THEN conjunct1] a
    by (simp add: call_gas_rule_def)
  have k5: "leftOverGas (create (ex_evm\<lparr>chainRules := ex_frontier, depth := 0\<rparr>) 0xA
        \<lparr>cah_code = [0xF3, 1, 2], cah_hash = 0\<rparr> 10 5 0x10A ex_db) = 7"
    using gas_conservation [OF run [where r = ex_frontier and d = 0]
        pre [where r = ex_frontier and d = 0], where gas = 10 and caller = "0xA" and val = 5
        and s = ex_db and address = "0x10A"
        and cah = "\<lparr>cah_code = [0xF3, 1, 2], cah_hash = 0\<rparr>",
        THEN conjunct2, THEN conjunct2, THEN conjunct2, THEN conjunct2, THEN conjunct1] a c
    by (simp add: create_gas_rule_def)
  show ?thesis
    using run0 tab copy a b c k1 k2 k3 k4 k5 by simp
qed

text \<open>
  Claim C7 as stated wants zero gas with every error other than a revert. A call rejected
  by the depth check or by the transfer guard returns its 1000 gas, before Homestead a
  creation that cannot pay for its code keeps the 7 gas left of 10, and a creation by a
  caller whose nonce is \<open>2^64 - 1\<close> returns its 1000 gas.
\<close>

theorem gas_not_zero_counterexample:
  "err (Call (ex_evm\<lparr>depth := 1025\<rparr>) 0xA 0xD [] 1000 0 ex_db) = Some ErrDepth
   \<and> leftOverGas (Call (ex_evm\<lparr>depth := 1025\<rparr>) 0xA 0xD [] 1000 0 ex_db) = 1000
   \<and> err (Call ex_evm 0xA 0xD [] 1000 500 ex_db) = Some ErrInsufficientBalance
   \<and> leftOverGas (Call ex_evm 0xA 0xD [] 1000 500 ex_db) = 1000
   \<and> err (create (ex_evm\<lparr>chainRules := ex_frontier\<rparr>) 0xA
        \<lparr>cah_code = [0xF3, 1, 2], cah_hash = 0\<rparr> 10 5 0x10A ex_db) = Some ErrCodeStoreOutOfGas
   \<and> leftOverGas (create (ex_evm\<lparr>chainRules := ex_frontier\<rparr>) 0xA
        \<lparr>cah_code = [0xF3, 1, 2], cah_hash = 0\<rparr> 10 5 0x10A ex_db) = 7
   \<and> err (Create ex_evm 0xA [0xF3, 1] 1000 0 (SetNonce ex_db 0xA 0xFFFFFFFFFFFFFFFF))
       = Some ErrNonceUintOverflow
   \<and> leftOverGas (Create ex_evm 0xA [0xF3, 1] 1000 0 (SetNonce ex_db 0xA 0xFFFFFFFFFFFFFFFF)) = 1000"
  by (simp add: ex_defs db_defs frame_defs call_defs create_defs Let_def)

end
